theory Spec2Isabelle
  imports Complex_Main "HOL-Library.List_Lexorder" "HOL-Library.Char_ord" "HOL-Library.AList"
begin

section \<open>Numpy's global random generator\<close>

text \<open>
  The generators draw every column from numpy's global random state. The state is threaded
  explicitly: \<open>'g\<close> is the type of generator states, and the primitive draws of the library
  are taken as parameters. \<open>np_seed k\<close> is the state after \<^verbatim>\<open>np.random.seed(k)\<close>;
  it does not depend on the state before the call. An array draw of size \<open>n\<close> is \<open>n\<close>
  successive scalar draws. Python floats are modelled as \<open>real\<close>.
\<close>

record 'g np_random =
  np_seed :: "nat \<Rightarrow> 'g"
  np_normal :: "real \<Rightarrow> real \<Rightarrow> 'g \<Rightarrow> real \<times> 'g"
  np_choice_str :: "string list \<Rightarrow> 'g \<Rightarrow> string \<times> 'g"
  np_choice_int :: "int list \<Rightarrow> 'g \<Rightarrow> int \<times> 'g"
  np_poisson :: "real \<Rightarrow> 'g \<Rightarrow> int \<times> 'g"
  np_randint :: "int \<Rightarrow> int \<Rightarrow> 'g \<Rightarrow> int \<times> 'g"

fun draws :: "nat \<Rightarrow> ('g \<Rightarrow> 'a \<times> 'g) \<Rightarrow> 'g \<Rightarrow> 'a list \<times> 'g" where
  "draws 0 f g = ([], g)"
| "draws (Suc n) f g =
     (case f g of (x, g1) \<Rightarrow> (case draws n f g1 of (xs, g2) \<Rightarrow> (x # xs, g2)))"

section \<open>simple\_cancer\_predictor.py: the synthetic table\<close>

text \<open>One row of the data frame built by \<^verbatim>\<open>generate_dummy_data\<close>.\<close>

record patient_row =
  age :: real
  gender :: string
  bmi :: real
  smoking_status :: string
  family_history :: int
  blood_pressure :: real
  cholesterol :: real
  glucose :: real
  white_blood_cells :: real
  platelet_count :: real
  hemoglobin :: real
  symptom_count :: int
  fatigue_level :: int
  pain_level :: int
  weight_loss :: int
  night_sweats :: int
  appetite_loss :: int

definition cancer_types :: "string list" where
  "cancer_types =
     [''Breast'', ''Lung'', ''Colon'', ''Prostate'', ''Melanoma'', ''Leukemia'', ''Ovarian'',
      ''Pancreatic'']"

text \<open>The body of the labelling loop (lines 67 to 82): the if/elif cascade on one row.\<close>

definition cancer_label :: "patient_row \<Rightarrow> string" where
  "cancer_label r =
     (if gender r = ''Female'' \<and> age r > 50 then ''Breast''
      else if smoking_status r \<in> set [''Current'', ''Former''] \<and> age r > 60 then ''Lung''
      else if age r > 70 \<and> family_history r = 1 then ''Colon''
      else if gender r = ''Male'' \<and> age r > 60 then ''Prostate''
      else if symptom_count r > 4 \<and> fatigue_level r > 3 then ''Leukemia''
      else if gender r = ''Female'' \<and> age r > 45 then ''Ovarian''
      else if weight_loss r = 1 \<and> appetite_loss r = 1 then ''Pancreatic''
      else ''Melanoma'')"

text \<open>The columns of the data frame, in the order in which they are drawn.\<close>

record dummy_columns =
  c_age :: "real list"
  c_gender :: "string list"
  c_bmi :: "real list"
  c_smoking_status :: "string list"
  c_family_history :: "int list"
  c_blood_pressure :: "real list"
  c_cholesterol :: "real list"
  c_glucose :: "real list"
  c_white_blood_cells :: "real list"
  c_platelet_count :: "real list"
  c_hemoglobin :: "real list"
  c_symptom_count :: "int list"
  c_fatigue_level :: "int list"
  c_pain_level :: "int list"
  c_weight_loss :: "int list"
  c_night_sweats :: "int list"
  c_appetite_loss :: "int list"

definition dummy_draw :: "'g np_random \<Rightarrow> nat \<Rightarrow> 'g \<Rightarrow> dummy_columns \<times> 'g" where
  "dummy_draw R n g0 =
     (case draws n (np_normal R 65 15) g0 of (a1, g1) \<Rightarrow>
      case draws n (np_choice_str R [''Male'', ''Female'']) g1 of (a2, g2) \<Rightarrow>
      case draws n (np_normal R 25 5) g2 of (a3, g3) \<Rightarrow>
      case draws n (np_choice_str R [''Never'', ''Former'', ''Current'']) g3 of (a4, g4) \<Rightarrow>
      case draws n (np_choice_int R [0, 1]) g4 of (a5, g5) \<Rightarrow>
      case draws n (np_normal R 120 20) g5 of (a6, g6) \<Rightarrow>
      case draws n (np_normal R 200 40) g6 of (a7, g7) \<Rightarrow>
      case draws n (np_normal R 100 20) g7 of (a8, g8) \<Rightarrow>
      case draws n (np_normal R 7 2) g8 of (a9, g9) \<Rightarrow>
      case draws n (np_normal R 250 50) g9 of (a10, g10) \<Rightarrow>
      case draws n (np_normal R 14 2) g10 of (a11, g11) \<Rightarrow>
      case draws n (np_poisson R 3) g11 of (a12, g12) \<Rightarrow>
      case draws n (np_randint R 1 6) g12 of (a13, g13) \<Rightarrow>
      case draws n (np_randint R 1 6) g13 of (a14, g14) \<Rightarrow>
      case draws n (np_choice_int R [0, 1]) g14 of (a15, g15) \<Rightarrow>
      case draws n (np_choice_int R [0, 1]) g15 of (a16, g16) \<Rightarrow>
      case draws n (np_choice_int R [0, 1]) g16 of (a17, g17) \<Rightarrow>
        (\<lparr>c_age = a1, c_gender = a2, c_bmi = a3, c_smoking_status = a4,
          c_family_history = a5, c_blood_pressure = a6, c_cholesterol = a7, c_glucose = a8,
          c_white_blood_cells = a9, c_platelet_count = a10, c_hemoglobin = a11,
          c_symptom_count = a12, c_fatigue_level = a13, c_pain_level = a14,
          c_weight_loss = a15, c_night_sweats = a16, c_appetite_loss = a17\<rparr>, g17))"

text \<open>\<^verbatim>\<open>df.loc[i, ...]\<close>: row \<open>i\<close> of the frame, read for \<open>i\<close> below the sample count.\<close>

definition df_loc :: "dummy_columns \<Rightarrow> nat \<Rightarrow> patient_row" where
  "df_loc d i =
     \<lparr>age = c_age d ! i, gender = c_gender d ! i, bmi = c_bmi d ! i,
      smoking_status = c_smoking_status d ! i, family_history = c_family_history d ! i,
      blood_pressure = c_blood_pressure d ! i, cholesterol = c_cholesterol d ! i,
      glucose = c_glucose d ! i, white_blood_cells = c_white_blood_cells d ! i,
      platelet_count = c_platelet_count d ! i, hemoglobin = c_hemoglobin d ! i,
      symptom_count = c_symptom_count d ! i, fatigue_level = c_fatigue_level d ! i,
      pain_level = c_pain_level d ! i, weight_loss = c_weight_loss d ! i,
      night_sweats = c_night_sweats d ! i, appetite_loss = c_appetite_loss d ! i\<rparr>"

text \<open>
  \<^verbatim>\<open>generate_dummy_data(n_samples)\<close>: seeds the global generator with 42, draws the
  columns, and labels the rows \<open>0 .. n_samples - 1\<close> in order. The result is the list of
  rows, each with its \<^verbatim>\<open>cancer_type\<close>, and the generator state left behind.
\<close>

definition generate_dummy_data ::
  "'g np_random \<Rightarrow> nat \<Rightarrow> 'g \<Rightarrow> (patient_row \<times> string) list \<times> 'g" where
  "generate_dummy_data R n_samples g0 =
     (case dummy_draw R n_samples (np_seed R 42) of (d, g) \<Rightarrow>
        (map (\<lambda>i. (df_loc d i, cancer_label (df_loc d i))) [0..<n_samples], g))"

section \<open>cancer\_prediction.py: the synthetic table of \<open>CancerPredictor\<close>\<close>

text \<open>
  One row of the frame built by \<^verbatim>\<open>generate_synthetic_cancer_data\<close>. The fields carry the
  prefix \<open>m_\<close>, since several column names are shared with \<open>patient_row\<close>.
\<close>

record marker_row =
  m_age :: real
  m_gender :: string
  m_bmi :: real
  m_smoking_history :: string
  m_family_history :: int
  m_ca125 :: real
  m_psa :: real
  m_cea :: real
  m_afp :: real
  m_hcg :: real
  m_ldh :: real
  m_platelet_count :: real
  m_white_blood_cells :: real
  m_red_blood_cells :: real
  m_hemoglobin :: real
  m_creatinine :: real
  m_glucose :: real
  m_cholesterol :: real
  m_blood_pressure_systolic :: real
  m_blood_pressure_diastolic :: real

definition synthetic_cancer_types :: "string list" where
  "synthetic_cancer_types =
     [''Breast'', ''Lung'', ''Colon'', ''Prostate'', ''Melanoma'', ''Leukemia'']"

text \<open>The body of the labelling loop (lines 64 to 75).\<close>

definition synthetic_cancer_label :: "marker_row \<Rightarrow> string" where
  "synthetic_cancer_label r =
     (if m_gender r = ''Female'' \<and> m_ca125 r > 25 then ''Breast''
      else if m_smoking_history r \<in> set [''Current'', ''Former''] \<and> m_age r > 60 then ''Lung''
      else if m_age r > 70 \<and> m_cea r > 4 then ''Colon''
      else if m_gender r = ''Male'' \<and> m_psa r > 6 then ''Prostate''
      else if m_afp r > 15 then ''Melanoma''
      else ''Leukemia'')"

record marker_columns =
  k_age :: "real list"
  k_gender :: "string list"
  k_bmi :: "real list"
  k_smoking_history :: "string list"
  k_family_history :: "int list"
  k_ca125 :: "real list"
  k_psa :: "real list"
  k_cea :: "real list"
  k_afp :: "real list"
  k_hcg :: "real list"
  k_ldh :: "real list"
  k_platelet_count :: "real list"
  k_white_blood_cells :: "real list"
  k_red_blood_cells :: "real list"
  k_hemoglobin :: "real list"
  k_creatinine :: "real list"
  k_glucose :: "real list"
  k_cholesterol :: "real list"
  k_blood_pressure_systolic :: "real list"
  k_blood_pressure_diastolic :: "real list"

definition marker_draw :: "'g np_random \<Rightarrow> nat \<Rightarrow> 'g \<Rightarrow> marker_columns \<times> 'g" where
  "marker_draw R n g0 =
     (case draws n (np_normal R 65 15) g0 of (a1, g1) \<Rightarrow>
      case draws n (np_choice_str R [''Male'', ''Female'']) g1 of (a2, g2) \<Rightarrow>
      case draws n (np_normal R 25 5) g2 of (a3, g3) \<Rightarrow>
      case draws n (np_choice_str R [''Never'', ''Former'', ''Current'']) g3 of (a4, g4) \<Rightarrow>
      case draws n (np_choice_int R [0, 1]) g4 of (a5, g5) \<Rightarrow>
      case draws n (np_normal R 20 10) g5 of (a6, g6) \<Rightarrow>
      case draws n (np_normal R 4 2) g6 of (a7, g7) \<Rightarrow>
      case draws n (np_normal R 3 1.5) g7 of (a8, g8) \<Rightarrow>
      case draws n (np_normal R 10 5) g8 of (a9, g9) \<Rightarrow>
      case draws n (np_normal R 5 2) g9 of (a10, g10) \<Rightarrow>
      case draws n (np_normal R 150 50) g10 of (a11, g11) \<Rightarrow>
      case draws n (np_normal R 250 50) g11 of (a12, g12) \<Rightarrow>
      case draws n (np_normal R 7 2) g12 of (a13, g13) \<Rightarrow>
      case draws n (np_normal R 4.5 0.5) g13 of (a14, g14) \<Rightarrow>
      case draws n (np_normal R 14 2) g14 of (a15, g15) \<Rightarrow>
      case draws n (np_normal R 1 0.3) g15 of (a16, g16) \<Rightarrow>
      case draws n (np_normal R 100 20) g16 of (a17, g17) \<Rightarrow>
      case draws n (np_normal R 200 40) g17 of (a18, g18) \<Rightarrow>
      case draws n (np_normal R 120 20) g18 of (a19, g19) \<Rightarrow>
      case draws n (np_normal R 80 10) g19 of (a20, g20) \<Rightarrow>
        (\<lparr>k_age = a1, k_gender = a2, k_bmi = a3, k_smoking_history = a4,
          k_family_history = a5, k_ca125 = a6, k_psa = a7, k_cea = a8, k_afp = a9,
          k_hcg = a10, k_ldh = a11, k_platelet_count = a12, k_white_blood_cells = a13,
          k_red_blood_cells = a14, k_hemoglobin = a15, k_creatinine = a16, k_glucose = a17,
          k_cholesterol = a18, k_blood_pressure_systolic = a19,
          k_blood_pressure_diastolic = a20\<rparr>, g20))"

definition marker_loc :: "marker_columns \<Rightarrow> nat \<Rightarrow> marker_row" where
  "marker_loc d i =
     \<lparr>m_age = k_age d ! i, m_gender = k_gender d ! i, m_bmi = k_bmi d ! i,
      m_smoking_history = k_smoking_history d ! i,
      m_family_history = k_family_history d ! i, m_ca125 = k_ca125 d ! i,
      m_psa = k_psa d ! i, m_cea = k_cea d ! i, m_afp = k_afp d ! i, m_hcg = k_hcg d ! i,
      m_ldh = k_ldh d ! i, m_platelet_count = k_platelet_count d ! i,
      m_white_blood_cells = k_white_blood_cells d ! i,
      m_red_blood_cells = k_red_blood_cells d ! i, m_hemoglobin = k_hemoglobin d ! i,
      m_creatinine = k_creatinine d ! i, m_glucose = k_glucose d ! i,
      m_cholesterol = k_cholesterol d ! i,
      m_blood_pressure_systolic = k_blood_pressure_systolic d ! i,
      m_blood_pressure_diastolic = k_blood_pressure_diastolic d ! i\<rparr>"

text \<open>
  \<^verbatim>\<open>CancerPredictor.generate_synthetic_cancer_data(n_samples)\<close>: the same scheme with the
  marker columns and the six-way cascade.
\<close>

definition generate_synthetic_cancer_data ::
  "'g np_random \<Rightarrow> nat \<Rightarrow> 'g \<Rightarrow> (marker_row \<times> string) list \<times> 'g" where
  "generate_synthetic_cancer_data R n_samples g0 =
     (case marker_draw R n_samples (np_seed R 42) of (d, g) \<Rightarrow>
        (map (\<lambda>i. (marker_loc d i, synthetic_cancer_label (marker_loc d i))) [0..<n_samples], g))"

section \<open>doctor\_explanation\_fallback.py\<close>

text \<open>
  Python strings are modelled as \<open>string\<close>, holding the UTF-8 bytes of the text. The
  conversions of the Python runtime that the templates call are parameters: \<open>format_percent\<close>
  is \<^verbatim>\<open>f"{x:.1%}"\<close>, \<open>str_num\<close> is \<^verbatim>\<open>f"{x}"\<close> on a number, \<open>str_lower\<close> and
  \<open>str_title\<close> are \<^verbatim>\<open>str.lower\<close> and \<^verbatim>\<open>str.title\<close>. The parameters \<^verbatim>\<open>age\<close> and
  \<^verbatim>\<open>gender\<close> of the source are written \<open>p_age\<close> and \<open>p_gender\<close>.
\<close>

record py_format =
  format_percent :: "real \<Rightarrow> string"
  str_num :: "real \<Rightarrow> string"
  str_lower :: "string \<Rightarrow> string"
  str_title :: "string \<Rightarrow> string"

datatype py_error = KeyError string | ValueError string | IndexError string | TypeError string

text \<open>
  A dictionary with string keys whose values are numbers or strings: the numeric entries
  and the string entries are kept apart, each as an association list.
\<close>

record pydict =
  nums :: "(string \<times> real) list"
  strs :: "(string \<times> string) list"

definition has_key :: "pydict \<Rightarrow> string \<Rightarrow> bool" where
  "has_key d k = (map_of (nums d) k \<noteq> None \<or> map_of (strs d) k \<noteq> None)"

definition get_num :: "pydict \<Rightarrow> string \<Rightarrow> real \<Rightarrow> real" where
  "get_num d k dflt = (case map_of (nums d) k of Some v \<Rightarrow> v | None \<Rightarrow> dflt)"

definition get_txt :: "pydict \<Rightarrow> string \<Rightarrow> string \<Rightarrow> string" where
  "get_txt d k dflt = (case map_of (strs d) k of Some v \<Rightarrow> v | None \<Rightarrow> dflt)"

text \<open>\<^verbatim>\<open>if d.get(k):\<close> is true for a number other than zero and for a non-empty string.\<close>

definition get_truthy :: "pydict \<Rightarrow> string \<Rightarrow> bool" where
  "get_truthy d k =
     (case map_of (nums d) k of Some v \<Rightarrow> v \<noteq> 0
      | None \<Rightarrow> (case map_of (strs d) k of Some s \<Rightarrow> s \<noteq> [] | None \<Rightarrow> False))"

definition dict_nonempty :: "pydict \<Rightarrow> bool" where
  "dict_nonempty d = (nums d \<noteq> [] \<or> strs d \<noteq> [])"

definition bullet :: string where
  "bullet = [CHR 0xE2, CHR 0x80, CHR 0xA2]"

text \<open>\<^verbatim>\<open>sep.join(xs)\<close>\<close>

fun join :: "string \<Rightarrow> string list \<Rightarrow> string" where
  "join sep [] = []"
| "join sep [x] = x"
| "join sep (x # y # ys) = x @ sep @ join sep (y # ys)"

text \<open>
  One entry of the table. The fields carry the prefix \<open>info_\<close>: the functions below use
  \<open>symptoms\<close>, \<open>risk_factors\<close> and \<open>specialists\<close> as names of their own variables.
\<close>

record cancer_info_entry =
  info_description :: string
  info_risk_factors :: "string list"
  info_symptoms :: "string list"
  info_tests :: "string list"
  info_specialists :: "string list"

text \<open>\<^verbatim>\<open>self.cancer_info\<close>, set in \<^verbatim>\<open>__init__\<close>: the entries in the order of the source.\<close>

definition cancer_info :: "(string \<times> cancer_info_entry) list" where
  "cancer_info =
     [(''Lung'',
       \<lparr>info_description =
          ''Lung cancer is a type of cancer that begins in the lungs and can spread to other parts of the body.'',
        info_risk_factors =
          [''smoking'', ''age over 65'', ''family history'', ''exposure to radon or asbestos''],
        info_symptoms =
          [''persistent cough'', ''chest pain'', ''shortness of breath'', ''weight loss'', ''fatigue''],
        info_tests =
          [''chest X-ray'', ''CT scan'', ''biopsy'', ''PET scan''],
        info_specialists =
          [''pulmonologist'', ''oncologist'']\<rparr>),
      (''Breast'',
       \<lparr>info_description =
          ''Breast cancer occurs when cells in breast tissue grow uncontrollably.'',
        info_risk_factors =
          [''age'', ''family history'', ''genetic mutations (BRCA1/BRCA2)'', ''hormone exposure''],
        info_symptoms =
          [''breast lump'', ''breast pain'', ''skin changes'', ''nipple discharge''],
        info_tests =
          [''mammography'', ''breast ultrasound'', ''biopsy'', ''MRI''],
        info_specialists =
          [''breast surgeon'', ''oncologist'']\<rparr>),
      (''Colorectal'',
       \<lparr>info_description =
          ''Colorectal cancer begins in the colon or rectum and is often preventable with screening.'',
        info_risk_factors =
          [''age over 50'', ''family history'', ''inflammatory bowel disease'', ''diet high in red meat''],
        info_symptoms =
          [''changes in bowel habits'', ''blood in stool'', ''abdominal pain'', ''weight loss''],
        info_tests =
          [''colonoscopy'', ''CT scan'', ''blood tests (CEA)'', ''biopsy''],
        info_specialists =
          [''gastroenterologist'', ''colorectal surgeon'', ''oncologist'']\<rparr>),
      (''Prostate'',
       \<lparr>info_description =
          ''Prostate cancer develops in the prostate gland and is common in older men.'',
        info_risk_factors =
          [''age over 65'', ''family history'', ''race (higher in African Americans)'', ''diet''],
        info_symptoms =
          [''difficulty urinating'', ''blood in urine'', ''pelvic pain'', ''erectile dysfunction''],
        info_tests =
          [''PSA blood test'', ''digital rectal exam'', ''biopsy'', ''MRI''],
        info_specialists =
          [''urologist'', ''oncologist'']\<rparr>),
      (''Pancreatic'',
       \<lparr>info_description =
          ''Pancreatic cancer is a serious form of cancer that develops in the pancreas.'',
        info_risk_factors =
          [''smoking'', ''diabetes'', ''family history'', ''chronic pancreatitis''],
        info_symptoms =
          [''abdominal pain'', ''weight loss'', ''jaundice'', ''new-onset diabetes''],
        info_tests =
          [''CT scan'', ''MRI'', ''endoscopic ultrasound'', ''biopsy''],
        info_specialists =
          [''gastroenterologist'', ''oncologist'', ''pancreatic surgeon'']\<rparr>),
      (''Melanoma'',
       \<lparr>info_description =
          ''Melanoma is the most serious type of skin cancer that develops in melanocytes.'',
        info_risk_factors =
          [''UV exposure'', ''fair skin'', ''family history'', ''multiple moles''],
        info_symptoms =
          [''changing moles'', ''new skin growths'', ''asymmetrical spots'', ''irregular borders''],
        info_tests =
          [''skin biopsy'', ''dermoscopy'', ''sentinel lymph node biopsy'', ''imaging studies''],
        info_specialists =
          [''dermatologist'', ''oncologist'']\<rparr>)]"

text \<open>\<^verbatim>\<open>d[k]\<close> on the table: a missing key raises \<^verbatim>\<open>KeyError\<close>.\<close>

definition cancer_info_item :: "string \<Rightarrow> py_error + cancer_info_entry" where
  "cancer_info_item k =
     (case map_of cancer_info k of Some e \<Rightarrow> Inr e | None \<Rightarrow> Inl (KeyError k))"

definition get_confidence_text :: "real \<Rightarrow> string" where
  "get_confidence_text confidence =
     (if confidence \<ge> 0.8 then
        ''This represents a high-confidence prediction with multiple risk factors present.''
      else if confidence \<ge> 0.6 then
        ''This represents a moderate-confidence prediction with several indicators present.''
      else if confidence \<ge> 0.4 then
        ''This represents a low-to-moderate confidence prediction with some risk factors identified.''
      else
        ''This represents a low-confidence prediction with minimal risk factors present.'')"

definition interpret_confidence :: "real \<Rightarrow> string" where
  "interpret_confidence confidence =
     (if confidence \<ge> 0.9 then ''Very high confidence - multiple strong indicators present''
      else if confidence \<ge> 0.7 then ''High confidence - several risk factors align''
      else if confidence \<ge> 0.5 then ''Moderate confidence - some indicators present''
      else if confidence \<ge> 0.3 then ''Low confidence - limited indicators''
      else ''Very low confidence - minimal risk factors'')"

definition identify_risk_factors ::
  "real \<Rightarrow> string \<Rightarrow> pydict option \<Rightarrow> cancer_info_entry \<Rightarrow> string" where
  "identify_risk_factors p_age p_gender medical_data info =
     (let rf1 =
        (if p_age > 65 then [''- Advanced age (increased risk)'']
         else if p_age > 50 then [''- Age over 50 (moderate risk factor)'']
         else []);
      rf2 =
        (case medical_data of
           None \<Rightarrow> []
         | Some md \<Rightarrow>
             if dict_nonempty md then
               (if map_of (strs md) ''smoking_status'' = Some ''Current''
                  then [''- Current smoking (significant risk factor)'']
                else if map_of (strs md) ''smoking_status'' = Some ''Former''
                  then [''- Former smoking history (elevated risk)'']
                else [])
               @ (if get_truthy md ''family_history''
                    then [''- Family history of cancer (genetic predisposition)''] else [])
               @ (if get_num md ''bmi'' 0 > 30
                    then [''- Obesity (BMI > 30, increased risk)''] else [])
             else []);
      risk_factors = rf1 @ rf2
      in if risk_factors \<noteq> [] then join ''\<newline>'' risk_factors
         else ''- No major risk factors identified'')"

definition analyze_symptoms :: "py_format \<Rightarrow> pydict \<Rightarrow> string" where
  "analyze_symptoms F symptoms =
     (let fatigue = get_num symptoms ''fatigue_level'' 1;
      a1 =
        (if fatigue > 3 then
           [''- Significant fatigue (level '' @ str_num F fatigue @ ''/5) - concerning symptom'']
         else if fatigue > 2 then
           [''- Moderate fatigue (level '' @ str_num F fatigue @ ''/5) - worth monitoring'']
         else []);
      pain = get_num symptoms ''pain_level'' 1;
      a2 =
        (if pain > 3 then
           [''- Significant pain (level '' @ str_num F pain @ ''/5) - requires evaluation'']
         else if pain > 2 then
           [''- Moderate pain (level '' @ str_num F pain @ ''/5) - should be assessed'']
         else []);
      a3 = (if get_truthy symptoms ''weight_loss''
              then [''- Unexplained weight loss - important warning sign''] else []);
      a4 = (if get_truthy symptoms ''night_sweats''
              then [''- Night sweats - can indicate systemic illness''] else []);
      a5 = (if get_truthy symptoms ''appetite_loss''
              then [''- Loss of appetite - concerning symptom''] else []);
      symptom_count = get_num symptoms ''symptom_count'' 0;
      a6 =
        (if symptom_count > 3 then
           [''- Multiple symptoms present ('' @ str_num F symptom_count
              @ '') - comprehensive evaluation needed'']
         else []);
      symptom_analysis = a1 @ a2 @ a3 @ a4 @ a5 @ a6
      in if symptom_analysis \<noteq> [] then join ''\<newline>'' symptom_analysis
         else ''- Minimal symptoms reported - good prognostic sign'')"

definition generate_explanation ::
  "py_format \<Rightarrow> string \<Rightarrow> real \<Rightarrow> string \<Rightarrow> string \<Rightarrow> real \<Rightarrow> pydict \<Rightarrow> pydict option
     \<Rightarrow> cancer_info_entry \<Rightarrow> string" where
  "generate_explanation F patient_name p_age p_gender cancer_type confidence symptoms medical_data
       info =
     (let confidence_text = get_confidence_text confidence;
      risk_factors = identify_risk_factors p_age p_gender medical_data info;
      symptom_analysis = analyze_symptoms F symptoms
      in ''Dear '' @ patient_name @ '',\<newline>''
         @ ''\<newline>''
         @ ''Based on our AI analysis of your medical information, there is a '' @ format_percent F confidence @ '' likelihood that you may be at risk for '' @ str_lower F cancer_type @ '' cancer. '' @ confidence_text @ ''\<newline>''
         @ ''\<newline>''
         @ info_description info @ ''\<newline>''
         @ ''\<newline>''
         @ ''Your risk assessment is based on several factors:\<newline>''
         @ ''- Age: '' @ str_num F p_age @ '' years old\<newline>''
         @ ''- Gender: '' @ p_gender @ ''\<newline>''
         @ risk_factors @ ''\<newline>''
         @ ''\<newline>''
         @ ''Symptom Analysis:\<newline>''
         @ symptom_analysis @ ''\<newline>''
         @ ''\<newline>''
         @ ''It's important to understand that this is a preliminary AI assessment and not a definitive diagnosis. Many conditions can present with similar symptoms, and further medical evaluation is essential for accurate diagnosis.'')"

definition generate_recommendations ::
  "py_format \<Rightarrow> string \<Rightarrow> pydict \<Rightarrow> pydict option \<Rightarrow> cancer_info_entry \<Rightarrow> string" where
  "generate_recommendations F cancer_type symptoms medical_data info =
     (''Based on your risk profile, I recommend the following:\<newline>''
      @ ''\<newline>''
      @ ''IMMEDIATE MEDICAL EVALUATION:\<newline>''
      @ bullet @ '' Schedule an appointment with your primary care physician within 1-2 weeks\<newline>''
      @ bullet @ '' Discuss your symptoms and risk factors in detail\<newline>''
      @ bullet @ '' Request appropriate screening tests\<newline>''
      @ ''\<newline>''
      @ ''RECOMMENDED TESTS:\<newline>''
      @ concat (map (\<lambda>test. bullet @ '' '' @ str_title F test @ ''\<newline>'') (info_tests info))
      @ ''\<newline>''
      @ ''LIFESTYLE MODIFICATIONS:\<newline>''
      @ bullet @ '' Maintain a healthy diet rich in fruits and vegetables\<newline>''
      @ bullet @ '' Exercise regularly as tolerated\<newline>''
      @ bullet @ '' Avoid tobacco and limit alcohol consumption\<newline>''
      @ bullet @ '' Follow up on any chronic medical conditions\<newline>''
      @ ''\<newline>''
      @ ''MONITORING:\<newline>''
      @ bullet @ '' Keep a symptom diary noting any changes\<newline>''
      @ bullet @ '' Report any new or worsening symptoms immediately\<newline>''
      @ bullet @ '' Follow recommended screening schedules for your age group'')"

definition generate_next_steps :: "string \<Rightarrow> cancer_info_entry \<Rightarrow> string" where
  "generate_next_steps cancer_type info =
     (let specialists = join '', '' (info_specialists info)
      in ''IMMEDIATE ACTIONS (Within 1-2 weeks):\<newline>''
         @ ''1. Contact your primary care physician to discuss these findings\<newline>''
         @ ''2. Schedule a comprehensive physical examination\<newline>''
         @ ''3. Bring a list of all current symptoms and medications\<newline>''
         @ ''\<newline>''
         @ ''FOLLOW-UP CARE (Within 2-4 weeks):\<newline>''
         @ ''1. Complete recommended diagnostic tests\<newline>''
         @ ''2. Consider consultation with specialists: '' @ specialists @ ''\<newline>''
         @ ''3. Discuss family history and genetic counseling if appropriate\<newline>''
         @ ''\<newline>''
         @ ''ONGOING MONITORING:\<newline>''
         @ ''1. Attend all scheduled appointments\<newline>''
         @ ''2. Follow through with recommended treatments or surveillance\<newline>''
         @ ''3. Maintain open communication with your healthcare team\<newline>''
         @ ''4. Seek immediate medical attention for any concerning new symptoms\<newline>''
         @ ''\<newline>''
         @ ''Remember: Early detection and treatment significantly improve outcomes for most types of cancer. This AI assessment is a tool to help guide your healthcare decisions, but professional medical evaluation is essential.'')"

record doctor_explanation =
  explanation :: string
  recommendations :: string
  next_steps :: string
  confidence_interpretation :: string
  full_response :: string

text \<open>
  \<^verbatim>\<open>generate_doctor_explanation\<close>. The default of the \<^verbatim>\<open>get\<close>, \<^verbatim>\<open>self.cancer_info['Lung']\<close>,
  is evaluated before the lookup, as Python evaluates arguments.
\<close>

definition generate_doctor_explanation ::
  "py_format \<Rightarrow> string \<Rightarrow> real \<Rightarrow> string \<Rightarrow> string \<Rightarrow> real \<Rightarrow> pydict \<Rightarrow> pydict option
     \<Rightarrow> py_error + doctor_explanation" where
  "generate_doctor_explanation F patient_name p_age p_gender predicted_cancer_type confidence_score
       symptoms medical_data =
     (case cancer_info_item ''Lung'' of
        Inl e \<Rightarrow> Inl e
      | Inr dflt \<Rightarrow>
          (let info = (case map_of cancer_info predicted_cancer_type of
                         Some e \<Rightarrow> e | None \<Rightarrow> dflt);
           explanation' = generate_explanation F patient_name p_age p_gender predicted_cancer_type
                            confidence_score symptoms medical_data info;
           recommendations' = generate_recommendations F predicted_cancer_type symptoms
                                medical_data info;
           next_steps' = generate_next_steps predicted_cancer_type info
           in Inr \<lparr>explanation = explanation',
                   recommendations = recommendations',
                   next_steps = next_steps',
                   confidence_interpretation = interpret_confidence confidence_score,
                   full_response =
                     explanation' @ ''\<newline>\<newline>RECOMMENDATIONS:\<newline>'' @ recommendations'
                     @ ''\<newline>\<newline>NEXT STEPS:\<newline>'' @ next_steps'\<rparr>))"

text \<open>\<^verbatim>\<open>generate_fallback_explanation(patient_data, prediction_result)\<close>\<close>

definition generate_fallback_explanation ::
  "py_format \<Rightarrow> pydict \<Rightarrow> pydict \<Rightarrow> py_error + doctor_explanation" where
  "generate_fallback_explanation F patient_data prediction_result =
     (let symptoms =
        \<lparr>nums = [(''fatigue_level'', get_num patient_data ''fatigue_level'' 1),
                 (''pain_level'', get_num patient_data ''pain_level'' 1),
                 (''weight_loss'', get_num patient_data ''weight_loss'' 0),
                 (''night_sweats'', get_num patient_data ''night_sweats'' 0),
                 (''appetite_loss'', get_num patient_data ''appetite_loss'' 0),
                 (''symptom_count'', get_num patient_data ''symptom_count'' 0)],
          strs = []\<rparr>;
      medical_data =
        \<lparr>nums = [(''bmi'', get_num patient_data ''bmi'' 0),
                 (''family_history'', get_num patient_data ''family_history'' 0),
                 (''blood_pressure'', get_num patient_data ''blood_pressure'' 0),
                 (''cholesterol'', get_num patient_data ''cholesterol'' 0),
                 (''glucose'', get_num patient_data ''glucose'' 0)],
          strs = [(''smoking_status'', get_txt patient_data ''smoking_status'' [])]\<rparr>
      in generate_doctor_explanation F
           (get_txt patient_data ''name'' ''Patient'')
           (get_num patient_data ''age'' 0)
           (get_txt patient_data ''gender'' ''Unknown'')
           (get_txt prediction_result ''predicted_cancer_type'' ''Unknown'')
           (get_num prediction_result ''confidence_score'' 0)
           symptoms (Some medical_data))"

section \<open>The scikit-learn objects used by the predictors\<close>

text \<open>
  \<^verbatim>\<open>LabelEncoder\<close>: \<^verbatim>\<open>fit\<close> stores the sorted distinct labels as \<^verbatim>\<open>classes_\<close>;
  \<^verbatim>\<open>transform\<close> maps a label to its index in \<^verbatim>\<open>classes_\<close> and raises \<^verbatim>\<open>ValueError\<close> for a
  label that \<^verbatim>\<open>fit\<close> did not see. A fitted encoder is represented by its \<^verbatim>\<open>classes_\<close>.
\<close>

definition le_fit :: "string list \<Rightarrow> string list" where
  "le_fit ys = sort (remdups ys)"

fun find_index :: "'a \<Rightarrow> 'a list \<Rightarrow> nat" where
  "find_index y [] = 0"
| "find_index y (c # cs) = (if y = c then 0 else Suc (find_index y cs))"

definition le_transform :: "string list \<Rightarrow> string \<Rightarrow> py_error + nat" where
  "le_transform cs y =
     (if y \<in> set cs then Inr (find_index y cs)
      else Inl (ValueError ''y contains previously unseen labels''))"

text \<open>\<^verbatim>\<open>fit_transform\<close>: the fitted encoder and the codes of the fitted column.\<close>

definition le_fit_transform :: "string list \<Rightarrow> string list \<times> nat list" where
  "le_fit_transform ys = (le_fit ys, map (\<lambda>y. find_index y (le_fit ys)) ys)"

text \<open>
  \<^verbatim>\<open>StandardScaler\<close>: a fitted scaler holds one mean and one scale per column, and
  \<^verbatim>\<open>transform\<close> maps each entry \<open>x\<close> of a row to \<open>(x - mean) / scale\<close>.
\<close>

record scaler =
  scaler_mean :: "real list"
  scaler_scale :: "real list"

definition scaler_transform :: "scaler \<Rightarrow> real list \<Rightarrow> real list" where
  "scaler_transform s x = map (\<lambda>(v, m, d). (v - m) / d) (zip x (zip (scaler_mean s) (scaler_scale s)))"

text \<open>
  \<^verbatim>\<open>RandomForestClassifier\<close>: a fitted forest has its \<^verbatim>\<open>classes_\<close> (here
  \<open>forest_classes\<close>), the sorted distinct training labels, and \<^verbatim>\<open>predict_proba\<close>, which gives one probability per class in the order
  of \<^verbatim>\<open>classes_\<close>. \<^verbatim>\<open>predict\<close> is \<^verbatim>\<open>classes_.take(argmax(predict_proba))\<close>, with numpy's
  \<^verbatim>\<open>argmax\<close>: the first index of the largest entry.
\<close>

record forest =
  forest_classes :: "string list"
  predict_proba :: "real list \<Rightarrow> real list"

fun argmax :: "real list \<Rightarrow> nat" where
  "argmax [] = 0"
| "argmax [x] = 0"
| "argmax (x # y # ys) =
     (let i = argmax (y # ys) in if (y # ys) ! i > x then Suc i else 0)"

definition forest_predict :: "forest \<Rightarrow> real list \<Rightarrow> py_error + string" where
  "forest_predict m x =
     (let p = predict_proba m x in
      if p = [] then Inl (ValueError ''attempt to get argmax of an empty sequence'')
      else if argmax p < length (forest_classes m) then Inr (forest_classes m ! argmax p)
      else Inl (IndexError ''index out of bounds''))"

text \<open>The first error of a list of results, or all the values.\<close>

fun collect :: "('e + 'a) list \<Rightarrow> 'e + 'a list" where
  "collect [] = Inr []"
| "collect (Inl e # rs) = Inl e"
| "collect (Inr v # rs) = (case collect rs of Inl e \<Rightarrow> Inl e | Inr vs \<Rightarrow> Inr (v # vs))"

text \<open>
  The library functions whose results depend on the data are parameters:
  \<^item> \<open>train_test_split\<close> is \<^verbatim>\<open>train_test_split(X, y, test_size=0.2, random_state=42, stratify=y)\<close>
    on the rows of \<open>X\<close> paired with their labels; it returns the training rows and the test
    rows, or raises;
  \<^item> \<open>standard_scaler_fit\<close> is \<^verbatim>\<open>StandardScaler().fit(X)\<close>;
  \<^item> \<open>random_forest_fit X y\<close> is the \<^verbatim>\<open>predict_proba\<close> of
    \<^verbatim>\<open>RandomForestClassifier(n_estimators=100, max_depth=10, random_state=42, n_jobs=-1).fit(X, y)\<close>;
  \<^item> \<open>accuracy_score\<close> is \<^verbatim>\<open>accuracy_score(y_true, y_pred)\<close>.
  Each is taken as a function of its arguments, the random states being fixed in the calls.
  For the forest this is an idealisation: its trees are evaluated in parallel
  (\<^verbatim>\<open>n_jobs=-1\<close>) and their votes are floating-point numbers, so the last bits of a
  probability depend on the order of summation, which the arguments do not fix. No
  property below rests on two calls of the forest returning the same number.
\<close>

record sklearn =
  train_test_split ::
    "(real list \<times> string) list
       \<Rightarrow> py_error + ((real list \<times> string) list \<times> (real list \<times> string) list)"
  standard_scaler_fit :: "real list list \<Rightarrow> scaler"
  random_forest_fit :: "real list list \<Rightarrow> string list \<Rightarrow> real list \<Rightarrow> real list"
  accuracy_score :: "string list \<Rightarrow> string list \<Rightarrow> real"

definition forest_fit :: "sklearn \<Rightarrow> real list list \<Rightarrow> string list \<Rightarrow> forest" where
  "forest_fit SK X y =
     \<lparr>forest_classes = sort (remdups y), predict_proba = random_forest_fit SK X y\<rparr>"

text \<open>
  \<^verbatim>\<open>dict(zip(keys, values))\<close>, as an association list in insertion order: a repeated key
  keeps its first position and takes the last value.
\<close>

definition dict_zip :: "string list \<Rightarrow> real list \<Rightarrow> (string \<times> real) list" where
  "dict_zip ks vs = fold (\<lambda>(k, v) d. AList.update k v d) (zip ks vs) []"

text \<open>
  \<^verbatim>\<open>sorted(d.items(), key=lambda x: x[1], reverse=True)\<close>: descending by value, equal values
  in their original order.
\<close>

definition sorted_items_desc :: "(string \<times> real) list \<Rightarrow> (string \<times> real) list" where
  "sorted_items_desc items = sort_key (\<lambda>(k, v). - v) items"

text \<open>\<^verbatim>\<open>max(xs)\<close> raises \<^verbatim>\<open>ValueError\<close> on an empty sequence.\<close>

definition py_max :: "real list \<Rightarrow> py_error + real" where
  "py_max xs =
     (case xs of [] \<Rightarrow> Inl (ValueError ''max() arg is an empty sequence'')
      | x # rest \<Rightarrow> Inr (fold max rest x))"

section \<open>simple\_cancer\_predictor.py: training and inference\<close>

definition feature_columns :: "string list" where
  "feature_columns =
     [''age'', ''bmi'', ''family_history'', ''blood_pressure'', ''cholesterol'', ''glucose'',
      ''white_blood_cells'', ''platelet_count'', ''hemoglobin'', ''symptom_count'',
      ''fatigue_level'', ''pain_level'', ''weight_loss'', ''night_sweats'', ''appetite_loss'']"

text \<open>\<^verbatim>\<open>df[feature_columns]\<close> on one row: the values in the order of \<open>feature_columns\<close>.\<close>

definition feature_row :: "patient_row \<Rightarrow> real list" where
  "feature_row r =
     [age r, bmi r, of_int (family_history r), blood_pressure r, cholesterol r, glucose r,
      white_blood_cells r, platelet_count r, hemoglobin r, of_int (symptom_count r),
      of_int (fatigue_level r), of_int (pain_level r), of_int (weight_loss r),
      of_int (night_sweats r), of_int (appetite_loss r)]"

text \<open>
  Lines 97 to 106: \<open>X\<close> is the feature columns followed by \<^verbatim>\<open>gender_encoded\<close> and
  \<^verbatim>\<open>smoking_encoded\<close>, the two encoders being fitted on the whole table. The rows of \<open>X\<close> are
  paired with \<open>y\<close>.
\<close>

definition encode_table ::
  "(patient_row \<times> string) list \<Rightarrow> string list \<times> string list \<times> (real list \<times> string) list" where
  "encode_table df =
     (case le_fit_transform (map (\<lambda>(r, l). gender r) df) of (le_gender, gender_encoded) \<Rightarrow>
      case le_fit_transform (map (\<lambda>(r, l). smoking_status r) df) of (le_smoking, smoking_encoded) \<Rightarrow>
        (le_gender, le_smoking,
         map (\<lambda>((r, l), ge, se). (feature_row r @ [real ge, real se], l))
           (zip df (zip gender_encoded smoking_encoded))))"

text \<open>The objects that training leaves for inference.\<close>

record fitted =
  le_gender :: "string list"
  le_smoking :: "string list"
  fitted_scaler :: scaler
  rf_model :: forest
  accuracy :: real

text \<open>Lines 91 to 131: encode, split, fit the scaler on the training rows, fit the forest.\<close>

definition train :: "sklearn \<Rightarrow> (patient_row \<times> string) list \<Rightarrow> py_error + fitted" where
  "train SK df =
     (case encode_table df of (le_g, le_s, Xy) \<Rightarrow>
      case train_test_split SK Xy of
        Inl e \<Rightarrow> Inl e
      | Inr (train_rows, test_rows) \<Rightarrow>
          (let sc = standard_scaler_fit SK (map fst train_rows);
               X_train_scaled = map (scaler_transform sc) (map fst train_rows);
               X_test_scaled = map (scaler_transform sc) (map fst test_rows);
               rf = forest_fit SK X_train_scaled (map snd train_rows)
           in case collect (map (forest_predict rf) X_test_scaled) of
                Inl e \<Rightarrow> Inl e
              | Inr y_pred \<Rightarrow>
                  Inr \<lparr>le_gender = le_g, le_smoking = le_s, fitted_scaler = sc, rf_model = rf,
                        accuracy = accuracy_score SK (map snd test_rows) y_pred\<rparr>))"

definition defaults :: "(string \<times> real) list" where
  "defaults =
     [(''age'', 65), (''bmi'', 25), (''family_history'', 0), (''blood_pressure'', 120),
      (''cholesterol'', 200), (''glucose'', 100), (''white_blood_cells'', 7),
      (''platelet_count'', 250), (''hemoglobin'', 14), (''symptom_count'', 3),
      (''fatigue_level'', 3), (''pain_level'', 3), (''weight_loss'', 0),
      (''night_sweats'', 0), (''appetite_loss'', 0)]"

text \<open>
  Lines 134 to 160: the feature list of the patient. The entries of \<open>patient_data\<close> under the
  feature columns are numbers and those under \<^verbatim>\<open>gender\<close> and \<^verbatim>\<open>smoking_status\<close> are strings,
  as the docstring of the function says.
\<close>

definition patient_features :: "fitted \<Rightarrow> pydict \<Rightarrow> py_error + real list" where
  "patient_features F patient_data =
     (let numeric =
        map (\<lambda>col. case map_of (nums patient_data) col of
                      Some v \<Rightarrow> v
                    | None \<Rightarrow> (case map_of defaults col of Some d \<Rightarrow> d | None \<Rightarrow> 0))
          feature_columns
      in case (case map_of (strs patient_data) ''gender'' of
                 Some g \<Rightarrow> le_transform (le_gender F) g
               | None \<Rightarrow> Inr 0) of
           Inl e \<Rightarrow> Inl e
         | Inr ge \<Rightarrow>
             (case (case map_of (strs patient_data) ''smoking_status'' of
                      Some s \<Rightarrow> le_transform (le_smoking F) s
                    | None \<Rightarrow> Inr 0) of
                Inl e \<Rightarrow> Inl e
              | Inr se \<Rightarrow> Inr (numeric @ [real ge, real se])))"

record prediction =
  predicted_cancer_type :: string
  confidence_score :: real
  all_probabilities :: "(string \<times> real) list"
  top_3_predictions :: "(string \<times> real) list"
  model_accuracy :: real

text \<open>Lines 162 to 188: scale with the fitted scaler, predict, and build the result.\<close>

definition predict_patient :: "fitted \<Rightarrow> real list \<Rightarrow> py_error + prediction" where
  "predict_patient F features =
     (let patient_scaled = scaler_transform (fitted_scaler F) features
      in case forest_predict (rf_model F) patient_scaled of
           Inl e \<Rightarrow> Inl e
         | Inr predicted_cancer \<Rightarrow>
             (let probabilities = predict_proba (rf_model F) patient_scaled
              in case py_max probabilities of
                   Inl e \<Rightarrow> Inl e
                 | Inr confidence \<Rightarrow>
                     (let cancer_probabilities = dict_zip (forest_classes (rf_model F)) probabilities;
                          sorted_probabilities = sorted_items_desc cancer_probabilities
                      in Inr \<lparr>predicted_cancer_type = predicted_cancer,
                              confidence_score = confidence,
                              all_probabilities = cancer_probabilities,
                              top_3_predictions = take 3 sorted_probabilities,
                              model_accuracy = accuracy F\<rparr>)))"

text \<open>Lines 91 to 188: everything that follows the generation of the table \<open>df\<close>.\<close>

definition predict_with_table ::
  "sklearn \<Rightarrow> (patient_row \<times> string) list \<Rightarrow> pydict \<Rightarrow> py_error + prediction" where
  "predict_with_table SK df patient_data =
     (case train SK df of
        Inl e \<Rightarrow> Inl e
      | Inr F \<Rightarrow>
          (case patient_features F patient_data of
             Inl e \<Rightarrow> Inl e
           | Inr features \<Rightarrow> predict_patient F features))"

text \<open>
  \<^verbatim>\<open>predict_cancer_type(patient_data)\<close>, run from the global generator state \<open>g0\<close>: the
  result, or the exception that ends the call, and the generator state afterwards.
\<close>

definition predict_cancer_type ::
  "sklearn \<Rightarrow> 'g np_random \<Rightarrow> pydict \<Rightarrow> 'g \<Rightarrow> (py_error + prediction) \<times> 'g" where
  "predict_cancer_type SK R patient_data g0 =
     (case generate_dummy_data R 1000 g0 of (df, g1) \<Rightarrow>
        (predict_with_table SK df patient_data, g1))"

section \<open>cancer\_prediction.py: \<open>CancerPredictor\<close>\<close>

text \<open>
  The attributes of a \<^verbatim>\<open>CancerPredictor\<close>. An unset attribute (\<^verbatim>\<open>None\<close>, or the unfitted
  scaler of \<^verbatim>\<open>__init__\<close>) is \<open>None\<close>; \<^verbatim>\<open>label_encoders\<close> maps a column name to the
  \<^verbatim>\<open>classes_\<close> of its encoder.
\<close>

record CancerPredictor =
  self_model :: "forest option"
  self_scaler :: "scaler option"
  self_label_encoders :: "(string \<times> string list) list"
  self_feature_names :: "string list option"
  self_cancer_types :: "string list option"

definition new_predictor :: CancerPredictor where
  "new_predictor =
     \<lparr>self_model = None, self_scaler = None, self_label_encoders = [],
      self_feature_names = None, self_cancer_types = None\<rparr>"

text \<open>\<^verbatim>\<open>X.columns.tolist()\<close> for the frame of \<^verbatim>\<open>generate_synthetic_cancer_data\<close>.\<close>

definition marker_feature_names :: "string list" where
  "marker_feature_names =
     [''age'', ''gender'', ''bmi'', ''smoking_history'', ''family_history'', ''ca125'', ''psa'',
      ''cea'', ''afp'', ''hcg'', ''ldh'', ''platelet_count'', ''white_blood_cells'',
      ''red_blood_cells'', ''hemoglobin'', ''creatinine'', ''glucose'', ''cholesterol'',
      ''blood_pressure_systolic'', ''blood_pressure_diastolic'']"

text \<open>A row of \<open>X\<close> once \<^verbatim>\<open>gender\<close> and \<^verbatim>\<open>smoking_history\<close> hold their codes.\<close>

definition marker_features :: "marker_row \<Rightarrow> nat \<Rightarrow> nat \<Rightarrow> real list" where
  "marker_features r gender_code smoking_code =
     [m_age r, real gender_code, m_bmi r, real smoking_code, of_int (m_family_history r),
      m_ca125 r, m_psa r, m_cea r, m_afp r, m_hcg r, m_ldh r, m_platelet_count r,
      m_white_blood_cells r, m_red_blood_cells r, m_hemoglobin r, m_creatinine r,
      m_glucose r, m_cholesterol r, m_blood_pressure_systolic r,
      m_blood_pressure_diastolic r]"

text \<open>\<^verbatim>\<open>Series.unique()\<close>: the distinct values in the order of their first appearance.\<close>

definition unique :: "'a list \<Rightarrow> 'a list" where
  "unique ys = rev (remdups (rev ys))"

text \<open>
  \<^verbatim>\<open>preprocess_data(df)\<close>: the updated predictor with \<^verbatim>\<open>X_train_scaled\<close>,
  \<^verbatim>\<open>X_test_scaled\<close>, \<^verbatim>\<open>y_train\<close> and \<^verbatim>\<open>y_test\<close>, or the exception of the split.
\<close>

definition preprocess_data ::
  "sklearn \<Rightarrow> CancerPredictor \<Rightarrow> (marker_row \<times> string) list
     \<Rightarrow> py_error + (CancerPredictor \<times> real list list \<times> real list list \<times> string list \<times> string list)"
  where
  "preprocess_data SK self df =
     (let y = map snd df;
          feature_names = marker_feature_names;
          cancer_types' = unique y
      in case le_fit_transform (map (\<lambda>(r, l). m_gender r) df) of (le_g, gender_codes) \<Rightarrow>
         case le_fit_transform (map (\<lambda>(r, l). m_smoking_history r) df) of (le_s, smoking_codes) \<Rightarrow>
           (let X = map (\<lambda>((r, l), gc, sc). (marker_features r gc sc, l))
                      (zip df (zip gender_codes smoking_codes))
            in case train_test_split SK X of
                 Inl e \<Rightarrow> Inl e
               | Inr (train_rows, test_rows) \<Rightarrow>
                   (let sc = standard_scaler_fit SK (map fst train_rows)
                    in Inr (self\<lparr>self_feature_names := Some feature_names,
                                 self_cancer_types := Some cancer_types',
                                 self_label_encoders :=
                                   [(''gender'', le_g), (''smoking_history'', le_s)],
                                 self_scaler := Some sc\<rparr>,
                            map (scaler_transform sc) (map fst train_rows),
                            map (scaler_transform sc) (map fst test_rows),
                            map snd train_rows, map snd test_rows))))"

definition train_model ::
  "sklearn \<Rightarrow> CancerPredictor \<Rightarrow> real list list \<Rightarrow> string list \<Rightarrow> CancerPredictor" where
  "train_model SK self X_train y_train = self\<lparr>self_model := Some (forest_fit SK X_train y_train)\<rparr>"

text \<open>
  Lines 153 to 169 of \<^verbatim>\<open>predict_cancer\<close>: the categorical columns that \<open>patient_data\<close> has
  are encoded in the order \<^verbatim>\<open>gender\<close>, \<^verbatim>\<open>smoking_history\<close>; every feature that it lacks is
  set to 0; the row is ordered as \<^verbatim>\<open>feature_names\<close>.
\<close>

definition encode_column :: "CancerPredictor \<Rightarrow> pydict \<Rightarrow> string \<Rightarrow> py_error + real option" where
  "encode_column self patient_data col =
     (case map_of (strs patient_data) col of
        None \<Rightarrow> Inr None
      | Some v \<Rightarrow>
          (case map_of (self_label_encoders self) col of
             None \<Rightarrow> Inl (KeyError col)
           | Some cs \<Rightarrow>
               (case le_transform cs v of Inl e \<Rightarrow> Inl e | Inr c \<Rightarrow> Inr (Some (real c)))))"

definition patient_vector :: "CancerPredictor \<Rightarrow> pydict \<Rightarrow> py_error + real list" where
  "patient_vector self patient_data =
     (case encode_column self patient_data ''gender'' of
        Inl e \<Rightarrow> Inl e
      | Inr gc \<Rightarrow>
          (case encode_column self patient_data ''smoking_history'' of
             Inl e \<Rightarrow> Inl e
           | Inr sc \<Rightarrow>
               (case self_feature_names self of
                  None \<Rightarrow> Inl (TypeError ''NoneType object is not iterable'')
                | Some feature_names \<Rightarrow>
                    Inr (map (\<lambda>f. if f = ''gender'' \<and> gc \<noteq> None then the gc
                                  else if f = ''smoking_history'' \<and> sc \<noteq> None then the sc
                                  else (case map_of (nums patient_data) f of
                                          Some v \<Rightarrow> v | None \<Rightarrow> 0))
                           feature_names))))"

record cancer_prediction =
  cp_predicted_cancer_type :: string
  cp_confidence :: real
  cp_all_probabilities :: "(string \<times> real) list"
  cp_top_predictions :: "(string \<times> real) list"

definition predict_cancer :: "CancerPredictor \<Rightarrow> pydict \<Rightarrow> py_error + cancer_prediction" where
  "predict_cancer self patient_data =
     (case self_model self of
        None \<Rightarrow> Inl (ValueError ''Model not trained. Please train the model first.'')
      | Some model \<Rightarrow>
          (case patient_vector self patient_data of
             Inl e \<Rightarrow> Inl e
           | Inr row \<Rightarrow>
               (case self_scaler self of
                  None \<Rightarrow> Inl (ValueError ''This StandardScaler instance is not fitted yet.'')
                | Some sc \<Rightarrow>
                    (let patient_scaled = scaler_transform sc row
                     in case forest_predict model patient_scaled of
                          Inl e \<Rightarrow> Inl e
                        | Inr predicted_cancer \<Rightarrow>
                            (let probabilities = predict_proba model patient_scaled
                             in case self_cancer_types self of
                                  None \<Rightarrow> Inl (TypeError ''NoneType object is not iterable'')
                                | Some cts \<Rightarrow>
                                    (let prob_dict = dict_zip cts probabilities;
                                         sorted_probs = sorted_items_desc prob_dict
                                     in case map_of prob_dict predicted_cancer of
                                          None \<Rightarrow> Inl (KeyError predicted_cancer)
                                        | Some c \<Rightarrow>
                                            Inr \<lparr>cp_predicted_cancer_type = predicted_cancer,
                                                 cp_confidence = c,
                                                 cp_all_probabilities = prob_dict,
                                                 cp_top_predictions = take 3 sorted_probs\<rparr>))))))"

text \<open>
  \<^verbatim>\<open>predict_cancer_type_and_probability(patient_data)\<close> with no \<^verbatim>\<open>model_path\<close>: generate,
  preprocess, train, predict. Evaluation only prints, and saving only writes a file.
\<close>

definition predict_cancer_type_and_probability ::
  "sklearn \<Rightarrow> 'g np_random \<Rightarrow> pydict \<Rightarrow> 'g \<Rightarrow> (py_error + cancer_prediction) \<times> 'g" where
  "predict_cancer_type_and_probability SK R patient_data g0 =
     (case generate_synthetic_cancer_data R 1000 g0 of (df, g1) \<Rightarrow>
        (case preprocess_data SK new_predictor df of
           Inl e \<Rightarrow> Inl e
         | Inr (predictor, X_train, X_test, y_train, y_test) \<Rightarrow>
             predict_cancer (train_model SK predictor X_train y_train) patient_data,
         g1))"

section \<open>A concrete generator for evaluating the model\<close>

text \<open>
  A small deterministic instance of the random generator, used to run the definitions on
  concrete inputs: the state is a counter, and every draw is a fixed function of it.
\<close>

definition demo_rng :: "nat np_random" where
  "demo_rng =
     \<lparr>np_seed = (\<lambda>k. k),
      np_normal = (\<lambda>mu sd g. (mu + sd * (real (g mod 4) - 1), Suc g)),
      np_choice_str = (\<lambda>xs g. (xs ! (g mod length xs), Suc g)),
      np_choice_int = (\<lambda>xs g. (xs ! (g mod length xs), Suc g)),
      np_poisson = (\<lambda>lam g. (int (g mod 7), Suc g)),
      np_randint = (\<lambda>lo hi g. (lo + int g mod (hi - lo), Suc g))\<rparr>"

text \<open>
  An instance of the formatting functions for evaluation: \<open>str_lower\<close> and \<open>str_title\<close> on
  ASCII letters, and the two number formats tabulated on the numbers of the examples below.
\<close>

definition ascii_lower :: "char \<Rightarrow> char" where
  "ascii_lower c =
     (if CHR ''A'' \<le> c \<and> c \<le> CHR ''Z'' then char_of (of_char c + (32 :: nat)) else c)"

definition ascii_upper :: "char \<Rightarrow> char" where
  "ascii_upper c =
     (if CHR ''a'' \<le> c \<and> c \<le> CHR ''z'' then char_of (of_char c - (32 :: nat)) else c)"

fun ascii_title :: "bool \<Rightarrow> string \<Rightarrow> string" where
  "ascii_title prev [] = []"
| "ascii_title prev (c # cs) =
     (if CHR ''a'' \<le> c \<and> c \<le> CHR ''z'' then
        (if prev then c else ascii_upper c) # ascii_title True cs
      else if CHR ''A'' \<le> c \<and> c \<le> CHR ''Z'' then
        (if prev then ascii_lower c else c) # ascii_title True cs
      else c # ascii_title False cs)"

definition demo_format :: py_format where
  "demo_format =
     \<lparr>format_percent = (\<lambda>x. if x = 0.78 then ''78.0%'' else if x = 0.5 then ''50.0%'' else ''?''),
      str_num = (\<lambda>x. if x = 65 then ''65'' else if x = 4 then ''4'' else if x = 3 then ''3''
                      else ''?''),
      str_lower = map ascii_lower,
      str_title = ascii_title False\<rparr>"

text \<open>The sample patient and prediction of the module's own test block.\<close>

definition sample_patient :: pydict where
  "sample_patient =
     \<lparr>nums = [(''age'', 65), (''bmi'', 28.5), (''family_history'', 1), (''fatigue_level'', 4),
             (''pain_level'', 3), (''weight_loss'', 1), (''night_sweats'', 0),
             (''appetite_loss'', 1), (''symptom_count'', 4)],
      strs = [(''name'', ''John Smith''), (''gender'', ''Male''), (''smoking_status'', ''Former'')]\<rparr>"

definition sample_symptoms :: pydict where
  "sample_symptoms =
     \<lparr>nums = [(''fatigue_level'', 4), (''pain_level'', 3), (''weight_loss'', 1),
             (''night_sweats'', 0), (''appetite_loss'', 1), (''symptom_count'', 4)],
      strs = []\<rparr>"

text \<open>
  An instance of the library functions for evaluation: the split keeps the last fifth of the
  rows for testing, the scaler has mean 0 and scale 1 in every column, the forest predicts
  the frequencies of the classes among the training labels, and the accuracy is the fraction
  of equal labels.
\<close>

definition demo_sklearn :: sklearn where
  "demo_sklearn =
     \<lparr>train_test_split =
        (\<lambda>rows. Inr (take (length rows - length rows div 5) rows,
                      drop (length rows - length rows div 5) rows)),
      standard_scaler_fit =
        (\<lambda>X. case X of [] \<Rightarrow> \<lparr>scaler_mean = [], scaler_scale = []\<rparr>
              | x # _ \<Rightarrow> \<lparr>scaler_mean = replicate (length x) 0,
                          scaler_scale = replicate (length x) 1\<rparr>),
      random_forest_fit =
        (\<lambda>X y x. map (\<lambda>c. real (count_list y c) / real (length y)) (sort (remdups y))),
      accuracy_score =
        (\<lambda>y_true y_pred.
           real (length (filter (\<lambda>(a, b). a = b) (zip y_true y_pred))) / real (length y_true))\<rparr>"

text \<open>A frame of ten rows for \<^verbatim>\<open>preprocess_data\<close>: six smokers above 60, then four women
  with a high \<open>ca125\<close>, each labelled by the cascade.\<close>

definition demo_marker_row :: "string \<Rightarrow> string \<Rightarrow> real \<Rightarrow> marker_row" where
  "demo_marker_row g s c =
     \<lparr>m_age = 65, m_gender = g, m_bmi = 25, m_smoking_history = s, m_family_history = 0,
      m_ca125 = c, m_psa = 4, m_cea = 3, m_afp = 10, m_hcg = 5, m_ldh = 150,
      m_platelet_count = 250, m_white_blood_cells = 7, m_red_blood_cells = 4.5,
      m_hemoglobin = 14, m_creatinine = 1, m_glucose = 100, m_cholesterol = 200,
      m_blood_pressure_systolic = 120, m_blood_pressure_diastolic = 80\<rparr>"

definition demo_frame :: "(marker_row \<times> string) list" where
  "demo_frame =
     map (\<lambda>r. (r, synthetic_cancer_label r))
       (replicate 6 (demo_marker_row ''Male'' ''Current'' 20)
        @ replicate 4 (demo_marker_row ''Female'' ''Never'' 30))"

definition demo_predictor :: "py_error + CancerPredictor" where
  "demo_predictor =
     (case preprocess_data demo_sklearn new_predictor demo_frame of
        Inl e \<Rightarrow> Inl e
      | Inr (predictor, X_train, X_test, y_train, y_test) \<Rightarrow>
          Inr (train_model demo_sklearn predictor X_train y_train))"

definition empty_dict :: pydict where
  "empty_dict = \<lparr>nums = [], strs = []\<rparr>"

section \<open>Properties of the label cascades\<close>

lemma length_draws: "length (fst (draws n f g)) = n"
  by (induction n arbitrary: g) (simp_all add: case_prod_beta)

lemma length_generate_dummy_data: "length (fst (generate_dummy_data R n g)) = n"
  by (simp add: generate_dummy_data_def split: prod.splits)

lemma length_generate_synthetic: "length (fst (generate_synthetic_cancer_data R n g)) = n"
  by (simp add: generate_synthetic_cancer_data_def split: prod.splits)

lemma generate_dummy_data_label:
  "(r, l) \<in> set (fst (generate_dummy_data R n g)) \<Longrightarrow> l = cancer_label r"
  by (auto simp: generate_dummy_data_def split: prod.splits)

lemma generate_synthetic_label:
  "(r, l) \<in> set (fst (generate_synthetic_cancer_data R n g)) \<Longrightarrow> l = synthetic_cancer_label r"
  by (auto simp: generate_synthetic_cancer_data_def split: prod.splits)

lemma cancer_label_in_types: "cancer_label r \<in> set cancer_types"
  by (simp add: cancer_label_def cancer_types_def)

lemma synthetic_cancer_label_in_types: "synthetic_cancer_label r \<in> set synthetic_cancer_types"
  by (simp add: synthetic_cancer_label_def synthetic_cancer_types_def)

lemma cancer_label_Breast:
  "gender r = ''Female'' \<Longrightarrow> 50 < age r \<Longrightarrow> cancer_label r = ''Breast''"
  by (simp add: cancer_label_def)

lemma synthetic_cancer_label_Breast:
  "m_gender r = ''Female'' \<Longrightarrow> 25 < m_ca125 r \<Longrightarrow> synthetic_cancer_label r = ''Breast''"
  by (simp add: synthetic_cancer_label_def)

lemma cancer_label_Ovarian:
  "cancer_label r = ''Ovarian'' \<Longrightarrow> gender r = ''Female'' \<and> 45 < age r \<and> age r \<le> 50"
  by (auto simp: cancer_label_def split: if_splits)

text \<open>What the test generator produces for small sample counts.\<close>

lemma demo_dummy_1:
  "map (\<lambda>(r, l). (gender r, age r, l)) (fst (generate_dummy_data demo_rng 1 0)) =
     [(''Female'', 80, ''Breast'')]"
  by code_simp

lemma demo_dummy_3:
  "map (\<lambda>(r, l). (gender r, age r, l)) (fst (generate_dummy_data demo_rng 3 0)) =
     [(''Female'', 80, ''Breast''), (''Male'', 95, ''Lung''), (''Female'', 50, ''Ovarian'')]"
  by code_simp

lemma demo_synthetic_1:
  "map (\<lambda>(r, l). (m_gender r, m_age r, m_ca125 r, l))
     (fst (generate_synthetic_cancer_data demo_rng 1 0)) = [(''Female'', 80, 40, ''Breast'')]"
  by code_simp

lemma demo_synthetic_2:
  "map (\<lambda>(r, l). (m_gender r, m_age r, m_ca125 r, l))
     (fst (generate_synthetic_cancer_data demo_rng 2 0)) =
     [(''Male'', 80, 10, ''Leukemia''), (''Female'', 95, 20, ''Lung'')]"
  by code_simp

text \<open>
  C4. For every sample count \<open>n\<close>, both generators return exactly \<open>n\<close> labelled rows; the
  label of each row is the value of the cascade on that row (the first matching rule, with
  the final \<open>else\<close> as catch-all), and it is one of the generator's fixed cancer types.
\<close>

theorem every_row_gets_one_label:
  "length (fst (generate_dummy_data R n g)) = n
   \<and> (\<forall>(r, l) \<in> set (fst (generate_dummy_data R n g)).
         l = cancer_label r \<and> l \<in> set cancer_types)
   \<and> length (fst (generate_synthetic_cancer_data R n g)) = n
   \<and> (\<forall>(r, l) \<in> set (fst (generate_synthetic_cancer_data R n g)).
         l = synthetic_cancer_label r \<and> l \<in> set synthetic_cancer_types)"
  by (auto simp: length_generate_dummy_data length_generate_synthetic cancer_label_in_types
      synthetic_cancer_label_in_types
      dest!: generate_dummy_data_label generate_synthetic_label)

theorem every_row_gets_one_label_witness:
  "length (fst (generate_dummy_data demo_rng 3 0)) = 3
   \<and> snd (fst (generate_dummy_data demo_rng 3 0) ! 2) = ''Ovarian''
   \<and> snd (fst (generate_dummy_data demo_rng 3 0) ! 2) \<in> set cancer_types
   \<and> length (fst (generate_synthetic_cancer_data demo_rng 2 0)) = 2
   \<and> snd (fst (generate_synthetic_cancer_data demo_rng 2 0) ! 1) = ''Lung''
   \<and> snd (fst (generate_synthetic_cancer_data demo_rng 2 0) ! 1) \<in> set synthetic_cancer_types"
proof -
  let ?s = "fst (generate_dummy_data demo_rng 3 0)"
  let ?t = "fst (generate_synthetic_cancer_data demo_rng 2 0)"
  note h = every_row_gets_one_label [of demo_rng 3 0]
  note k = every_row_gets_one_label [of demo_rng 2 0]
  have ls: "length ?s = 3" and lt: "length ?t = 2"
    using h [THEN conjunct1] k [THEN conjunct2, THEN conjunct2, THEN conjunct1] by simp_all
  have ms: "?s ! 2 \<in> set ?s" and mt: "?t ! 1 \<in> set ?t"
    using ls lt by simp_all
  note hs = h [THEN conjunct2, THEN conjunct1]
  note kt = k [THEN conjunct2, THEN conjunct2, THEN conjunct2]
  have "snd (?s ! 2) \<in> set cancer_types"
    using bspec [OF hs ms] by (auto simp: case_prod_beta)
  moreover have "snd (?t ! 1) \<in> set synthetic_cancer_types"
    using bspec [OF kt mt] by (auto simp: case_prod_beta)
  moreover have "snd (?s ! 2) = ''Ovarian''"
    using arg_cong [OF demo_dummy_3, of "\<lambda>xs. xs ! 2"] ls by (simp add: case_prod_beta)
  moreover have "snd (?t ! 1) = ''Lung''"
    using arg_cong [OF demo_synthetic_2, of "\<lambda>xs. xs ! 1"] lt by (simp add: case_prod_beta)
  ultimately show ?thesis using ls lt by simp
qed

text \<open>
  C10. In \<^verbatim>\<open>generate_dummy_data\<close> the \<open>Ovarian\<close> rule (Female and age above 45) comes after
  the \<open>Breast\<close> rule (Female and age above 50): every generated row labelled \<open>Ovarian\<close> is
  Female with an age above 45 and at most 50.
\<close>

theorem ovarian_rows_female_between_45_and_50:
  "(r, l) \<in> set (fst (generate_dummy_data R n g)) \<Longrightarrow> l = ''Ovarian'' \<Longrightarrow>
     gender r = ''Female'' \<and> 45 < age r \<and> age r \<le> 50"
  using generate_dummy_data_label [of r l R n g] cancer_label_Ovarian [of r] by simp

theorem ovarian_rows_female_between_45_and_50_witness:
  "fst (generate_dummy_data demo_rng 3 0) ! 2 \<in> set (fst (generate_dummy_data demo_rng 3 0))
   \<and> snd (fst (generate_dummy_data demo_rng 3 0) ! 2) = ''Ovarian''
   \<and> gender (fst (fst (generate_dummy_data demo_rng 3 0) ! 2)) = ''Female''
   \<and> age (fst (fst (generate_dummy_data demo_rng 3 0) ! 2)) = 50
   \<and> 45 < age (fst (fst (generate_dummy_data demo_rng 3 0) ! 2))
   \<and> age (fst (fst (generate_dummy_data demo_rng 3 0) ! 2)) \<le> 50"
proof -
  let ?s = "fst (generate_dummy_data demo_rng 3 0)"
  have ls: "length ?s = 3" by (rule length_generate_dummy_data)
  have m: "?s ! 2 \<in> set ?s" using ls by simp
  have e: "snd (?s ! 2) = ''Ovarian''" "age (fst (?s ! 2)) = 50"
    using arg_cong [OF demo_dummy_3, of "\<lambda>xs. xs ! 2"] ls by (simp_all add: case_prod_beta)
  have "(fst (?s ! 2), snd (?s ! 2)) \<in> set ?s" using m by simp
  from ovarian_rows_female_between_45_and_50 [OF this e(1)] m e show ?thesis by simp
qed

text \<open>
  C3. In \<^verbatim>\<open>generate_dummy_data\<close> the first rule is Female and age above 50, so every
  generated Female row with an age above 50 (age 70 and every age above 70 included) is
  labelled \<open>Breast\<close>. In \<^verbatim>\<open>CancerPredictor.generate_synthetic_cancer_data\<close> the first rule
  is Female and \<open>ca125 > 25\<close> instead: a Female row with \<open>ca125 > 25\<close> is labelled \<open>Breast\<close>
  whatever its age, and a Female row above 70 with a lower \<open>ca125\<close> falls through to the
  later rules.
\<close>

theorem female_over_70_synthetic_counterexample:
  "m_gender (fst (fst (generate_synthetic_cancer_data demo_rng 2 0) ! 1)) = ''Female''
   \<and> 70 < m_age (fst (fst (generate_synthetic_cancer_data demo_rng 2 0) ! 1))
   \<and> snd (fst (generate_synthetic_cancer_data demo_rng 2 0) ! 1) = ''Lung''
   \<and> snd (fst (generate_synthetic_cancer_data demo_rng 2 0) ! 1) \<noteq> ''Breast''"
proof -
  let ?t = "fst (generate_synthetic_cancer_data demo_rng 2 0)"
  have lt: "length ?t = 2" by (rule length_generate_synthetic)
  have "m_gender (fst (?t ! 1)) = ''Female''" "m_age (fst (?t ! 1)) = 95" "snd (?t ! 1) = ''Lung''"
    using arg_cong [OF demo_synthetic_2, of "\<lambda>xs. xs ! 1"] lt
    by (simp_all add: case_prod_beta)
  then show ?thesis by simp
qed

theorem first_rule_assigns_breast:
  "((r, l) \<in> set (fst (generate_dummy_data R n g)) \<and> gender r = ''Female'' \<and> 50 < age r
      \<longrightarrow> l = ''Breast'')
   \<and> ((r', l') \<in> set (fst (generate_synthetic_cancer_data R n g)) \<and> m_gender r' = ''Female''
        \<and> 25 < m_ca125 r' \<longrightarrow> l' = ''Breast'')"
  using generate_dummy_data_label [of r l R n g] generate_synthetic_label [of r' l' R n g]
  by (auto simp: cancer_label_Breast synthetic_cancer_label_Breast)

theorem first_rule_assigns_breast_witness:
  "fst (generate_dummy_data demo_rng 1 0) ! 0 \<in> set (fst (generate_dummy_data demo_rng 1 0))
   \<and> gender (fst (fst (generate_dummy_data demo_rng 1 0) ! 0)) = ''Female''
   \<and> age (fst (fst (generate_dummy_data demo_rng 1 0) ! 0)) = 80
   \<and> snd (fst (generate_dummy_data demo_rng 1 0) ! 0) = ''Breast''
   \<and> fst (generate_synthetic_cancer_data demo_rng 1 0) ! 0
        \<in> set (fst (generate_synthetic_cancer_data demo_rng 1 0))
   \<and> m_gender (fst (fst (generate_synthetic_cancer_data demo_rng 1 0) ! 0)) = ''Female''
   \<and> m_ca125 (fst (fst (generate_synthetic_cancer_data demo_rng 1 0) ! 0)) = 40
   \<and> snd (fst (generate_synthetic_cancer_data demo_rng 1 0) ! 0) = ''Breast''"
proof -
  let ?s = "fst (generate_dummy_data demo_rng 1 0)"
  let ?t = "fst (generate_synthetic_cancer_data demo_rng 1 0)"
  have ls: "length ?s = 1" and lt: "length ?t = 1"
    by (rule length_generate_dummy_data, rule length_generate_synthetic)
  have ms: "?s ! 0 \<in> set ?s" and mt: "?t ! 0 \<in> set ?t"
    using ls lt by simp_all
  have es: "gender (fst (?s ! 0)) = ''Female''" "age (fst (?s ! 0)) = 80"
    using arg_cong [OF demo_dummy_1, of "\<lambda>xs. xs ! 0"] ls by (simp_all add: case_prod_beta)
  have et: "m_gender (fst (?t ! 0)) = ''Female''" "m_ca125 (fst (?t ! 0)) = 40"
    using arg_cong [OF demo_synthetic_1, of "\<lambda>xs. xs ! 0"] lt
    by (simp_all add: case_prod_beta)
  have "(fst (?s ! 0), snd (?s ! 0)) \<in> set ?s" "(fst (?t ! 0), snd (?t ! 0)) \<in> set ?t"
    using ms mt by simp_all
  with first_rule_assigns_breast [of "fst (?s ! 0)" "snd (?s ! 0)" demo_rng 1 0
      "fst (?t ! 0)" "snd (?t ! 0)"] es et
  have "snd (?s ! 0) = ''Breast''" "snd (?t ! 0) = ''Breast''" by simp_all
  with ms mt es et show ?thesis by simp
qed

section \<open>Properties of the explanation formatter\<close>

lemma cancer_info_Lung:
  "\<exists>lung. map_of cancer_info ''Lung'' = Some lung
     \<and> info_description lung =
         ''Lung cancer is a type of cancer that begins in the lungs and can spread to other parts of the body.''
     \<and> info_tests lung = [''chest X-ray'', ''CT scan'', ''biopsy'', ''PET scan'']
     \<and> info_specialists lung = [''pulmonologist'', ''oncologist'']"
  by (simp add: cancer_info_def)

lemma cancer_info_keys:
  "map fst cancer_info =
     [''Lung'', ''Breast'', ''Colorectal'', ''Prostate'', ''Pancreatic'', ''Melanoma'']"
  by (simp add: cancer_info_def)

lemma cancer_info_unlisted:
  assumes "t \<in> set [''Colon'', ''Ovarian'', ''Leukemia'']"
  shows "map_of cancer_info t = None"
proof -
  have "t \<notin> set (map fst cancer_info)"
    unfolding cancer_info_keys using assms by auto
  then show ?thesis by (simp add: map_of_eq_None_iff)
qed

lemma cancer_info_Colorectal: "map_of cancer_info ''Colorectal'' \<noteq> None"
proof -
  have "''Colorectal'' \<in> set (map fst cancer_info)"
    unfolding cancer_info_keys by simp
  then show ?thesis by (simp add: map_of_eq_None_iff)
qed

lemma generate_doctor_explanation_eq:
  assumes "map_of cancer_info ''Lung'' = Some lung"
  shows "generate_doctor_explanation F name a g t c sy md =
     (let info = (case map_of cancer_info t of Some e \<Rightarrow> e | None \<Rightarrow> lung);
          e = generate_explanation F name a g t c sy md info;
          r = generate_recommendations F t sy md info;
          n = generate_next_steps t info
      in Inr \<lparr>explanation = e, recommendations = r, next_steps = n,
              confidence_interpretation = interpret_confidence c,
              full_response = e @ ''\<newline>\<newline>RECOMMENDATIONS:\<newline>'' @ r
                 @ ''\<newline>\<newline>NEXT STEPS:\<newline>'' @ n\<rparr>)"
  using assms by (simp add: generate_doctor_explanation_def cancer_info_item_def Let_def)

lemma interpret_confidence_bands:
  "(0.9 \<le> c \<longrightarrow>
      interpret_confidence c = ''Very high confidence - multiple strong indicators present'')
   \<and> (0.7 \<le> c \<and> c < 0.9 \<longrightarrow>
      interpret_confidence c = ''High confidence - several risk factors align'')
   \<and> (0.5 \<le> c \<and> c < 0.7 \<longrightarrow>
      interpret_confidence c = ''Moderate confidence - some indicators present'')
   \<and> (0.3 \<le> c \<and> c < 0.5 \<longrightarrow>
      interpret_confidence c = ''Low confidence - limited indicators'')
   \<and> (c < 0.3 \<longrightarrow>
      interpret_confidence c = ''Very low confidence - minimal risk factors'')"
  by (simp add: interpret_confidence_def)

text \<open>
  C8. \<^verbatim>\<open>generate_doctor_explanation\<close> always returns a result. Its explanation,
  recommendations and next steps are built from the table entry stored under exactly the
  predicted type, or from the entry of \<open>Lung\<close> when the table has no such key; its confidence
  interpretation is chosen by the bands \<open>\<ge> 0.9\<close>, \<open>\<ge> 0.7\<close>, \<open>\<ge> 0.5\<close>, \<open>\<ge> 0.3\<close> and below,
  tried in that order.
\<close>

theorem explanation_is_a_lookup:
  "\<exists>r lung. map_of cancer_info ''Lung'' = Some lung
     \<and> generate_doctor_explanation F name a g t c sy md = Inr r
     \<and> (\<forall>e. map_of cancer_info t = Some e \<longrightarrow>
           explanation r = generate_explanation F name a g t c sy md e
           \<and> recommendations r = generate_recommendations F t sy md e
           \<and> next_steps r = generate_next_steps t e)
     \<and> (map_of cancer_info t = None \<longrightarrow>
           explanation r = generate_explanation F name a g t c sy md lung
           \<and> recommendations r = generate_recommendations F t sy md lung
           \<and> next_steps r = generate_next_steps t lung)
     \<and> (0.9 \<le> c \<longrightarrow> confidence_interpretation r =
           ''Very high confidence - multiple strong indicators present'')
     \<and> (0.7 \<le> c \<and> c < 0.9 \<longrightarrow> confidence_interpretation r =
           ''High confidence - several risk factors align'')
     \<and> (0.5 \<le> c \<and> c < 0.7 \<longrightarrow> confidence_interpretation r =
           ''Moderate confidence - some indicators present'')
     \<and> (0.3 \<le> c \<and> c < 0.5 \<longrightarrow> confidence_interpretation r =
           ''Low confidence - limited indicators'')
     \<and> (c < 0.3 \<longrightarrow> confidence_interpretation r =
           ''Very low confidence - minimal risk factors'')"
proof -
  obtain lung where l: "map_of cancer_info ''Lung'' = Some lung"
    using cancer_info_Lung by blast
  let ?info = "case map_of cancer_info t of Some e \<Rightarrow> e | None \<Rightarrow> lung"
  let ?e = "generate_explanation F name a g t c sy md ?info"
  let ?r = "generate_recommendations F t sy md ?info"
  let ?n = "generate_next_steps t ?info"
  let ?res = "\<lparr>explanation = ?e, recommendations = ?r, next_steps = ?n,
              confidence_interpretation = interpret_confidence c,
              full_response = ?e @ ''\<newline>\<newline>RECOMMENDATIONS:\<newline>'' @ ?r
                 @ ''\<newline>\<newline>NEXT STEPS:\<newline>'' @ ?n\<rparr>"
  have eq: "generate_doctor_explanation F name a g t c sy md = Inr ?res"
    by (simp add: generate_doctor_explanation_eq [OF l] Let_def)
  have "(\<forall>e. map_of cancer_info t = Some e \<longrightarrow>
           explanation ?res = generate_explanation F name a g t c sy md e
           \<and> recommendations ?res = generate_recommendations F t sy md e
           \<and> next_steps ?res = generate_next_steps t e)"
    by simp
  moreover have "map_of cancer_info t = None \<longrightarrow>
           explanation ?res = generate_explanation F name a g t c sy md lung
           \<and> recommendations ?res = generate_recommendations F t sy md lung
           \<and> next_steps ?res = generate_next_steps t lung"
    by simp
  moreover have "confidence_interpretation ?res = interpret_confidence c"
    by simp
  ultimately show ?thesis
    using l eq interpret_confidence_bands [of c] by (intro exI [of _ ?res] exI [of _ lung]) simp
qed

theorem explanation_is_a_lookup_witness:
  "\<exists>r lung. map_of cancer_info ''Lung'' = Some lung
     \<and> generate_doctor_explanation demo_format ''John Smith'' 65 ''Male'' ''Colon'' 0.78
           sample_symptoms None = Inr r
     \<and> map_of cancer_info ''Colon'' = None
     \<and> explanation r = generate_explanation demo_format ''John Smith'' 65 ''Male'' ''Colon'' 0.78
           sample_symptoms None lung
     \<and> recommendations r = generate_recommendations demo_format ''Colon'' sample_symptoms None lung
     \<and> next_steps r = generate_next_steps ''Colon'' lung
     \<and> (0.7 :: real) \<le> 0.78 \<and> (0.78 :: real) < 0.9
     \<and> confidence_interpretation r = ''High confidence - several risk factors align''"
proof -
  have n: "map_of cancer_info ''Colon'' = None"
    by (rule cancer_info_unlisted) simp
  have b: "(0.7 :: real) \<le> 0.78 \<and> (0.78 :: real) < 0.9" by simp
  show ?thesis
    using explanation_is_a_lookup [of demo_format "''John Smith''" 65 "''Male''" "''Colon''"
        "0.78" sample_symptoms None] n b
    apply (elim exE conjE)
    subgoal for r lung
      apply (intro exI [of _ r] exI [of _ lung])
      apply simp
      done
    done
qed

lemma cascade_reaches_unlisted:
  "t \<in> set [''Colon'', ''Ovarian'', ''Leukemia''] \<Longrightarrow> \<exists>row. cancer_label row = t"
proof -
  let ?base = "\<lparr>age = 48, gender = ''Female'', bmi = 25, smoking_status = ''Never'',
      family_history = 1, blood_pressure = 120, cholesterol = 200, glucose = 100,
      white_blood_cells = 7, platelet_count = 250, hemoglobin = 14, symptom_count = 3,
      fatigue_level = 3, pain_level = 3, weight_loss = 0, night_sweats = 0,
      appetite_loss = 0\<rparr>"
  assume "t \<in> set [''Colon'', ''Ovarian'', ''Leukemia'']"
  then consider "t = ''Colon''" | "t = ''Ovarian''" | "t = ''Leukemia''" by auto
  then show ?thesis
  proof cases
    case 1
    have "cancer_label (?base\<lparr>age := 75, gender := ''Male''\<rparr>) = ''Colon''"
      by (simp add: cancer_label_def)
    with 1 show ?thesis by blast
  next
    case 2
    have "cancer_label ?base = ''Ovarian''"
      by (simp add: cancer_label_def)
    with 2 show ?thesis by blast
  next
    case 3
    have "cancer_label (?base\<lparr>age := 40, symptom_count := 5, fatigue_level := 4\<rparr>) = ''Leukemia''"
      by (simp add: cancer_label_def)
    with 3 show ?thesis by blast
  qed
qed

lemma contains_left:
  "\<exists>pre post. v = pre @ c @ post \<Longrightarrow> \<exists>pre post. u @ v = pre @ c @ post"
  by (metis append.assoc)

lemma contains_here: "\<exists>pre post. c @ w = pre @ c @ post"
  by (metis append.simps(1))

lemma generate_recommendations_tests:
  "\<exists>pre post. generate_recommendations F t sy md info =
     pre @ concat (map (\<lambda>test. bullet @ '' '' @ str_title F test @ ''\<newline>'') (info_tests info))
       @ post"
  unfolding generate_recommendations_def
  by (intro contains_here contains_left)

lemma contains_here3: "\<exists>pre post. c1 @ c2 @ c3 @ w = pre @ (c1 @ c2 @ c3) @ post"
  by (metis append.simps(1) append.assoc)

lemma generate_next_steps_specialists:
  "\<exists>pre post. generate_next_steps t info =
     pre @ (''2. Consider consultation with specialists: ''
            @ join '', '' (info_specialists info) @ ''\<newline>'') @ post"
  unfolding generate_next_steps_def Let_def
  by (intro contains_here3 contains_left)

text \<open>
  C9. \<open>Colon\<close>, \<open>Ovarian\<close> and \<open>Leukemia\<close> are labels that the cascade of
  \<^verbatim>\<open>generate_dummy_data\<close> assigns, so the classifier is trained on them; the table of the
  fallback generator has no entry under these keys (it has \<open>Colorectal\<close>). For a prediction
  of one of them the explanation is built from the entry of \<open>Lung\<close>: the explanation contains
  the description of lung cancer; the recommendations contain one bullet for each test of
  \<open>Lung\<close> (chest X-ray, CT scan, biopsy, PET scan, each in title case), in this order; the
  next steps contain the line that names the specialists of \<open>Lung\<close>, the pulmonologist and the
  oncologist. Recommendations and next steps are the texts returned for a prediction of
  \<open>Lung\<close>.
\<close>

theorem unlisted_types_get_the_lung_template:
  assumes "t \<in> set [''Colon'', ''Ovarian'', ''Leukemia'']"
  shows "(\<exists>row. cancer_label row = t) \<and> t \<in> set cancer_types
     \<and> map_of cancer_info t = None \<and> map_of cancer_info ''Colorectal'' \<noteq> None
     \<and> (\<exists>r rl lung pre post pre_t post_t pre_s post_s.
           map_of cancer_info ''Lung'' = Some lung
         \<and> generate_doctor_explanation F name a g t c sy md = Inr r
         \<and> generate_doctor_explanation F name a g ''Lung'' c sy md = Inr rl
         \<and> explanation r = generate_explanation F name a g t c sy md lung
         \<and> explanation r = pre
               @ ''Lung cancer is a type of cancer that begins in the lungs and can spread to other parts of the body.''
               @ post
         \<and> recommendations r = pre_t
               @ bullet @ '' '' @ str_title F ''chest X-ray'' @ ''\<newline>''
               @ bullet @ '' '' @ str_title F ''CT scan'' @ ''\<newline>''
               @ bullet @ '' '' @ str_title F ''biopsy'' @ ''\<newline>''
               @ bullet @ '' '' @ str_title F ''PET scan'' @ ''\<newline>''
               @ post_t
         \<and> next_steps r = pre_s
               @ ''2. Consider consultation with specialists: pulmonologist, oncologist\<newline>''
               @ post_s
         \<and> recommendations r = recommendations rl
         \<and> next_steps r = next_steps rl)"
proof -
  obtain lung where l: "map_of cancer_info ''Lung'' = Some lung"
    and d: "info_description lung =
         ''Lung cancer is a type of cancer that begins in the lungs and can spread to other parts of the body.''"
    and ts: "info_tests lung = [''chest X-ray'', ''CT scan'', ''biopsy'', ''PET scan'']"
    and sp: "info_specialists lung = [''pulmonologist'', ''oncologist'']"
    using cancer_info_Lung by blast
  have n: "map_of cancer_info t = None"
    using assms by (rule cancer_info_unlisted)
  have ty: "t \<in> set cancer_types"
    using assms by (auto simp: cancer_types_def)
  let ?e = "generate_explanation F name a g t c sy md lung"
  let ?r = "generate_recommendations F t sy md lung"
  let ?n = "generate_next_steps t lung"
  let ?res = "\<lparr>explanation = ?e, recommendations = ?r, next_steps = ?n,
              confidence_interpretation = interpret_confidence c,
              full_response = ?e @ ''\<newline>\<newline>RECOMMENDATIONS:\<newline>'' @ ?r
                 @ ''\<newline>\<newline>NEXT STEPS:\<newline>'' @ ?n\<rparr>"
  let ?el = "generate_explanation F name a g ''Lung'' c sy md lung"
  let ?rl = "generate_recommendations F ''Lung'' sy md lung"
  let ?nl = "generate_next_steps ''Lung'' lung"
  let ?resl = "\<lparr>explanation = ?el, recommendations = ?rl, next_steps = ?nl,
              confidence_interpretation = interpret_confidence c,
              full_response = ?el @ ''\<newline>\<newline>RECOMMENDATIONS:\<newline>'' @ ?rl
                 @ ''\<newline>\<newline>NEXT STEPS:\<newline>'' @ ?nl\<rparr>"
  have e1: "generate_doctor_explanation F name a g t c sy md = Inr ?res"
    by (simp add: generate_doctor_explanation_eq [OF l] n Let_def)
  have e2: "generate_doctor_explanation F name a g ''Lung'' c sy md = Inr ?resl"
    by (simp add: generate_doctor_explanation_eq [OF l] l Let_def)
  have r: "?r = ?rl" by (simp add: generate_recommendations_def)
  have s: "?n = ?nl" by (simp add: generate_next_steps_def)
  have "\<exists>pre post. ?e = pre @ info_description lung @ post"
    unfolding generate_explanation_def Let_def
    by (metis append.assoc)
  then obtain pre post where p: "?e = pre @ info_description lung @ post" by blast
  obtain pre_t post_t where pt: "?r = pre_t
      @ concat (map (\<lambda>test. bullet @ '' '' @ str_title F test @ ''\<newline>'') (info_tests lung))
      @ post_t"
    using generate_recommendations_tests by blast
  obtain pre_s post_s where ps: "?n = pre_s
      @ (''2. Consider consultation with specialists: ''
         @ join '', '' (info_specialists lung) @ ''\<newline>'') @ post_s"
    using generate_next_steps_specialists by blast
  have pt': "?r = pre_t
               @ bullet @ '' '' @ str_title F ''chest X-ray'' @ ''\<newline>''
               @ bullet @ '' '' @ str_title F ''CT scan'' @ ''\<newline>''
               @ bullet @ '' '' @ str_title F ''biopsy'' @ ''\<newline>''
               @ bullet @ '' '' @ str_title F ''PET scan'' @ ''\<newline>''
               @ post_t"
    using pt by (simp add: ts)
  have ps': "?n = pre_s
               @ ''2. Consider consultation with specialists: pulmonologist, oncologist\<newline>''
               @ post_s"
    using ps by (simp add: sp)
  have "\<exists>r rl lung pre post pre_t post_t pre_s post_s.
           map_of cancer_info ''Lung'' = Some lung
         \<and> generate_doctor_explanation F name a g t c sy md = Inr r
         \<and> generate_doctor_explanation F name a g ''Lung'' c sy md = Inr rl
         \<and> explanation r = generate_explanation F name a g t c sy md lung
         \<and> explanation r = pre
               @ ''Lung cancer is a type of cancer that begins in the lungs and can spread to other parts of the body.''
               @ post
         \<and> recommendations r = pre_t
               @ bullet @ '' '' @ str_title F ''chest X-ray'' @ ''\<newline>''
               @ bullet @ '' '' @ str_title F ''CT scan'' @ ''\<newline>''
               @ bullet @ '' '' @ str_title F ''biopsy'' @ ''\<newline>''
               @ bullet @ '' '' @ str_title F ''PET scan'' @ ''\<newline>''
               @ post_t
         \<and> next_steps r = pre_s
               @ ''2. Consider consultation with specialists: pulmonologist, oncologist\<newline>''
               @ post_s
         \<and> recommendations r = recommendations rl
         \<and> next_steps r = next_steps rl"
    apply (rule exI [of _ ?res])
    apply (rule exI [of _ ?resl])
    apply (rule exI [of _ lung])
    apply (rule exI [of _ pre])
    apply (rule exI [of _ post])
    apply (rule exI [of _ pre_t])
    apply (rule exI [of _ post_t])
    apply (rule exI [of _ pre_s])
    apply (rule exI [of _ post_s])
    apply (intro conjI)
            apply (rule l)
           apply (rule e1)
          apply (rule e2)
         apply simp
        apply (simp add: p d)
       apply (simp add: pt')
      apply (simp add: ps')
     apply (simp add: r)
    apply (simp add: s)
    done
  then show ?thesis
    using cascade_reaches_unlisted [OF assms] ty n cancer_info_Colorectal by blast
qed

theorem unlisted_types_get_the_lung_template_witness:
  "''Colon'' \<in> set [''Colon'', ''Ovarian'', ''Leukemia'']
   \<and> map_of cancer_info ''Colon'' = None
   \<and> (\<exists>r rl pre_t post_t pre_s post_s.
           generate_doctor_explanation demo_format ''John Smith'' 65 ''Male'' ''Colon'' 0.78
             sample_symptoms None = Inr r
         \<and> generate_doctor_explanation demo_format ''John Smith'' 65 ''Male'' ''Lung'' 0.78
             sample_symptoms None = Inr rl
         \<and> recommendations r = pre_t
               @ bullet @ '' Chest X-Ray\<newline>''
               @ bullet @ '' Ct Scan\<newline>''
               @ bullet @ '' Biopsy\<newline>''
               @ bullet @ '' Pet Scan\<newline>''
               @ post_t
         \<and> next_steps r = pre_s
               @ ''2. Consider consultation with specialists: pulmonologist, oncologist\<newline>''
               @ post_s
         \<and> recommendations r = recommendations rl
         \<and> next_steps r = next_steps rl)"
proof -
  have m: "''Colon'' \<in> set [''Colon'', ''Ovarian'', ''Leukemia'']" by simp
  have t1: "str_title demo_format ''chest X-ray'' = ''Chest X-Ray''" by code_simp
  have t2: "str_title demo_format ''CT scan'' = ''Ct Scan''" by code_simp
  have t3: "str_title demo_format ''biopsy'' = ''Biopsy''" by code_simp
  have t4: "str_title demo_format ''PET scan'' = ''Pet Scan''" by code_simp
  from unlisted_types_get_the_lung_template [OF m, of demo_format "''John Smith''" 65 "''Male''"
      "0.78" sample_symptoms None]
  show ?thesis
    apply (elim exE conjE)
    subgoal for row r rl lung pre post pre_t post_t pre_s post_s
      apply (intro conjI m)
       apply assumption
      apply (rule exI [of _ r])
      apply (rule exI [of _ rl])
      apply (rule exI [of _ pre_t])
      apply (rule exI [of _ post_t])
      apply (rule exI [of _ pre_s])
      apply (rule exI [of _ post_s])
      apply (intro conjI)
           apply assumption
          apply assumption
         apply (simp add: t1 t2 t3 t4)
        apply assumption
       apply assumption
      apply assumption
      done
    done
qed
section \<open>Properties of the prediction pipelines\<close>

lemma set_le_fit: "set (le_fit ys) = set ys"
  by (simp add: le_fit_def)

lemma le_transform_unseen:
  "y \<notin> set cs \<Longrightarrow> le_transform cs y = Inl (ValueError ''y contains previously unseen labels'')"
  by (simp add: le_transform_def)

lemma le_transform_seen: "y \<in> set cs \<Longrightarrow> le_transform cs y = Inr (find_index y cs)"
  by (simp add: le_transform_def)


lemma predict_cancer_type_eq:
  "fst (predict_cancer_type SK R p g) = predict_with_table SK (fst (generate_dummy_data R 1000 g)) p"
  by (simp add: predict_cancer_type_def split: prod.splits)

lemma generate_dummy_data_reseeds:
  "generate_dummy_data R n g1 = generate_dummy_data R n g2"
  by (simp add: generate_dummy_data_def)

lemma train_encoders:
  assumes "train SK df = Inr F"
  shows "le_gender F = le_fit (map (\<lambda>(r, l). gender r) df)"
    and "le_smoking F = le_fit (map (\<lambda>(r, l). smoking_status r) df)"
  using assms
  by (auto simp: train_def encode_table_def le_fit_transform_def Let_def
      split: sum.splits prod.splits)

text \<open>
  C5. A patient whose \<^verbatim>\<open>gender\<close> or \<^verbatim>\<open>smoking_status\<close> does not occur in the corresponding
  column of the training table gets no prediction: the call ends with an exception, and when
  training itself succeeded that exception is the \<^verbatim>\<open>ValueError\<close> of the label encoder,
  raised while the patient row is encoded. \<^verbatim>\<open>predict_cancer_type\<close> is this computation on
  the generated table.
\<close>

theorem unseen_category_aborts_prediction:
  assumes "(\<exists>v. map_of (strs p) ''gender'' = Some v \<and> v \<notin> set (map (\<lambda>(r, l). gender r) df))
         \<or> (\<exists>v. map_of (strs p) ''smoking_status'' = Some v
                \<and> v \<notin> set (map (\<lambda>(r, l). smoking_status r) df))"
  shows "fst (predict_cancer_type SK R p g)
           = predict_with_table SK (fst (generate_dummy_data R 1000 g)) p
       \<and> isl (predict_with_table SK df p)
       \<and> (\<forall>F. train SK df = Inr F \<longrightarrow>
             patient_features F p = Inl (ValueError ''y contains previously unseen labels'')
           \<and> predict_with_table SK df p = Inl (ValueError ''y contains previously unseen labels''))"
proof -
  have feat: "patient_features F p = Inl (ValueError ''y contains previously unseen labels'')"
    if t: "train SK df = Inr F" for F
  proof -
    note enc = train_encoders [OF t]
    from assms show ?thesis
    proof
      assume "\<exists>v. map_of (strs p) ''gender'' = Some v \<and> v \<notin> set (map (\<lambda>(r, l). gender r) df)"
      then obtain v where v: "map_of (strs p) ''gender'' = Some v" "v \<notin> set (le_gender F)"
        using enc(1) by (auto simp: set_le_fit)
      then show ?thesis
        by (simp add: patient_features_def le_transform_unseen Let_def)
    next
      assume "\<exists>v. map_of (strs p) ''smoking_status'' = Some v
                \<and> v \<notin> set (map (\<lambda>(r, l). smoking_status r) df)"
      then obtain v where v: "map_of (strs p) ''smoking_status'' = Some v" "v \<notin> set (le_smoking F)"
        using enc(2) by (auto simp: set_le_fit)
      show ?thesis
      proof (cases "map_of (strs p) ''gender''")
        case None
        then show ?thesis
          using v by (simp add: patient_features_def le_transform_unseen Let_def)
      next
        case (Some w)
        show ?thesis
        proof (cases "w \<in> set (le_gender F)")
          case True
          then show ?thesis
            using v Some
            by (simp add: patient_features_def le_transform_unseen le_transform_seen Let_def)
        next
          case False
          then show ?thesis
            using Some by (simp add: patient_features_def le_transform_unseen Let_def)
        qed
      qed
    qed
  qed
  have res: "predict_with_table SK df p = Inl (ValueError ''y contains previously unseen labels'')"
    if t: "train SK df = Inr F" for F
    using feat [OF t] t by (simp add: predict_with_table_def)
  have "isl (predict_with_table SK df p)"
  proof (cases "train SK df")
    case (Inl e)
    then show ?thesis by (simp add: predict_with_table_def)
  next
    case (Inr F)
    then show ?thesis using res by simp
  qed
  moreover have "\<forall>F. train SK df = Inr F \<longrightarrow>
             patient_features F p = Inl (ValueError ''y contains previously unseen labels'')
           \<and> predict_with_table SK df p = Inl (ValueError ''y contains previously unseen labels'')"
    using feat res by (intro allI impI conjI)
  ultimately show ?thesis using predict_cancer_type_eq [of SK R p g] by (intro conjI)
qed

theorem unseen_category_aborts_prediction_witness:
  "map_of (strs \<lparr>nums = [], strs = [(''gender'', ''Other'')]\<rparr>) ''gender'' = Some ''Other''
   \<and> ''Other'' \<notin> set (map (\<lambda>(r, l). gender r) (fst (generate_dummy_data demo_rng 3 0)))
   \<and> \<not> isl (train demo_sklearn (fst (generate_dummy_data demo_rng 3 0)))
   \<and> predict_with_table demo_sklearn (fst (generate_dummy_data demo_rng 3 0))
         \<lparr>nums = [], strs = [(''gender'', ''Other'')]\<rparr>
       = Inl (ValueError ''y contains previously unseen labels'')"
proof -
  let ?df = "fst (generate_dummy_data demo_rng 3 0)"
  let ?p = "\<lparr>nums = [], strs = [(''gender'', ''Other'')]\<rparr>"
  have h1: "map_of (strs ?p) ''gender'' = Some ''Other''" by simp
  have h2: "''Other'' \<notin> set (map (\<lambda>(r, l). gender r) ?df)" by code_simp
  have h3: "\<not> isl (train demo_sklearn ?df)" by code_simp
  then obtain F where t: "train demo_sklearn ?df = Inr F"
    by (cases "train demo_sklearn ?df") simp_all
  have a: "(\<exists>v. map_of (strs ?p) ''gender'' = Some v \<and> v \<notin> set (map (\<lambda>(r, l). gender r) ?df))
         \<or> (\<exists>v. map_of (strs ?p) ''smoking_status'' = Some v
                \<and> v \<notin> set (map (\<lambda>(r, l). smoking_status r) ?df))"
    using h1 h2 by blast
  note u = unseen_category_aborts_prediction [OF a, of demo_sklearn demo_rng 0]
  from u [THEN conjunct2, THEN conjunct2, rule_format, OF t, THEN conjunct2] h1 h2 h3
  show ?thesis by (intro conjI)
qed
section \<open>The confidence of a prediction\<close>

lemma py_max_Max:
  assumes "py_max xs = Inr m"
  shows "m = Max (set xs) \<and> m \<in> set xs"
proof (cases xs)
  case Nil
  with assms show ?thesis by (simp add: py_max_def)
next
  case (Cons x rest)
  with assms have m: "m = Max (set xs)"
    by (simp add: py_max_def Max.set_eq_fold [symmetric])
  have "Max (set xs) \<in> set xs"
    by (rule Max_in) (simp_all add: Cons)
  with m show ?thesis by simp
qed

lemma update_fresh: "k \<notin> fst ` set al \<Longrightarrow> AList.update k v al = al @ [(k, v)]"
  by (induction al) auto

lemma fold_update_distinct:
  "distinct (map fst kvs) \<Longrightarrow> fst ` set kvs \<inter> fst ` set acc = {}
     \<Longrightarrow> fold (\<lambda>(k, v) d. AList.update k v d) kvs acc = acc @ kvs"
proof (induction kvs arbitrary: acc)
  case Nil
  then show ?case by simp
next
  case (Cons kv kvs)
  obtain k v where kv: "kv = (k, v)" by (cases kv)
  have f: "k \<notin> fst ` set acc" using Cons.prems(2) kv by auto
  have "fst ` set kvs \<inter> fst ` set (acc @ [(k, v)]) = {}"
    using Cons.prems kv by (auto simp: image_iff)
  with Cons.IH [of "acc @ [(k, v)]"] Cons.prems(1) kv f show ?case
    by (simp add: update_fresh)
qed

lemma dict_zip_distinct:
  "distinct ks \<Longrightarrow> length ks = length vs \<Longrightarrow> dict_zip ks vs = zip ks vs"
  using fold_update_distinct [of "zip ks vs" "[]"] by (simp add: dict_zip_def)

lemma predict_patient_confidence:
  assumes "predict_patient F x = Inr r"
  shows "confidence_score r = Max (set (predict_proba (rf_model F) (scaler_transform (fitted_scaler F) x)))
       \<and> all_probabilities r = dict_zip (forest_classes (rf_model F))
            (predict_proba (rf_model F) (scaler_transform (fitted_scaler F) x))
       \<and> predict_proba (rf_model F) (scaler_transform (fitted_scaler F) x) \<noteq> []
       \<and> predicted_cancer_type r = forest_classes (rf_model F)
            ! argmax (predict_proba (rf_model F) (scaler_transform (fitted_scaler F) x))"
  using assms
  by (auto simp: predict_patient_def forest_predict_def Let_def dest!: py_max_Max
      split: sum.splits if_splits)

lemma member_le_sum_list_real:
  fixes xs :: "real list"
  shows "x \<in> set xs \<Longrightarrow> \<forall>v \<in> set xs. 0 \<le> v \<Longrightarrow> x \<le> sum_list xs"
proof (induction xs)
  case Nil
  then show ?case by simp
next
  case (Cons a xs)
  have "0 \<le> sum_list xs" using Cons.prems(2) by (simp add: sum_list_nonneg)
  moreover have "0 \<le> a" using Cons.prems(2) by simp
  ultimately show ?case using Cons by auto
qed

lemma predict_patient_distribution:
  assumes r: "predict_patient F x = Inr r"
    and d: "distinct (forest_classes (rf_model F))"
    and l: "length (predict_proba (rf_model F) (scaler_transform (fitted_scaler F) x))
              = length (forest_classes (rf_model F))"
    and n: "\<forall>v \<in> set (predict_proba (rf_model F) (scaler_transform (fitted_scaler F) x)). 0 \<le> v"
    and s: "sum_list (predict_proba (rf_model F) (scaler_transform (fitted_scaler F) x)) = 1"
  shows "map fst (all_probabilities r) = forest_classes (rf_model F)
       \<and> sum_list (map snd (all_probabilities r)) = 1
       \<and> confidence_score r = Max (snd ` set (all_probabilities r))
       \<and> 0 \<le> confidence_score r \<and> confidence_score r \<le> 1"
proof -
  let ?p = "predict_proba (rf_model F) (scaler_transform (fitted_scaler F) x)"
  note c = predict_patient_confidence [OF r]
  have a: "all_probabilities r = zip (forest_classes (rf_model F)) ?p"
    using c d l by (simp add: dict_zip_distinct)
  have ms: "map snd (all_probabilities r) = ?p" and mf: "map fst (all_probabilities r) = forest_classes (rf_model F)"
    unfolding a using l by simp_all
  have st: "snd ` set (all_probabilities r) = set ?p"
    using ms by (metis set_map)
  have mx: "confidence_score r = Max (set ?p)" using c by simp
  have "?p \<noteq> []" using c by simp
  then have mem: "Max (set ?p) \<in> set ?p" by (intro Max_in) simp_all
  have "0 \<le> Max (set ?p)" using n mem by blast
  moreover have "Max (set ?p) \<le> 1" using member_le_sum_list_real [OF mem n] s by simp
  ultimately show ?thesis using mf ms s st mx by simp
qed

lemma predict_cancer_pairs_by_cancer_types:
  assumes "predict_cancer self p = Inr r"
  shows "\<exists>m sc row cts. self_model self = Some m \<and> self_scaler self = Some sc
     \<and> self_cancer_types self = Some cts \<and> patient_vector self p = Inr row
     \<and> cp_predicted_cancer_type r
         = forest_classes m ! argmax (predict_proba m (scaler_transform sc row))
     \<and> cp_all_probabilities r = dict_zip cts (predict_proba m (scaler_transform sc row))
     \<and> map_of (cp_all_probabilities r) (cp_predicted_cancer_type r) = Some (cp_confidence r)"
  using assms
  by (auto simp: predict_cancer_def forest_predict_def Let_def
      split: option.splits sum.splits if_splits)

lemma preprocess_data_cancer_types:
  assumes "preprocess_data SK self df = Inr (P, X_train, X_test, y_train, y_test)"
  shows "self_cancer_types (train_model SK P X_train y_train) = Some (unique (map snd df))
       \<and> map_option forest_classes (self_model (train_model SK P X_train y_train))
           = Some (sort (remdups y_train))"
  using assms
  by (auto simp: preprocess_data_def train_model_def forest_fit_def Let_def
      split: prod.splits sum.splits)

lemma demo_predict_cancer:
  "(case demo_predictor of
      Inl e \<Rightarrow> None
    | Inr P \<Rightarrow> Some (self_cancer_types P, map_option forest_classes (self_model P),
                      predict_cancer P empty_dict))
   = Some (Some [''Lung'', ''Breast''], Some [''Breast'', ''Lung''],
           Inr \<lparr>cp_predicted_cancer_type = ''Lung'', cp_confidence = 1 / 4,
                cp_all_probabilities = [(''Lung'', 1 / 4), (''Breast'', 3 / 4)],
                cp_top_predictions = [(''Breast'', 3 / 4), (''Lung'', 1 / 4)]\<rparr>)"
  by code_simp

text \<open>
  C2. \<^verbatim>\<open>predict_cancer_type\<close> reports \<^verbatim>\<open>max(probabilities)\<close> and pairs the probabilities
  with \<^verbatim>\<open>rf_model.classes_\<close>, so there the confidence is the maximum of the returned
  distribution (\<open>predict_patient_confidence\<close>, \<open>predict_patient_distribution\<close>).
  \<^verbatim>\<open>CancerPredictor.predict_cancer\<close> pairs the probabilities, which follow the sorted
  \<^verbatim>\<open>classes_\<close> of the forest, with \<^verbatim>\<open>self.cancer_types\<close>, the labels in the order of their
  first appearance in the table, and reports the entry filed under the predicted label. On
  the frame of ten rows whose first label is \<open>Lung\<close>, the classes of the forest are \<open>Breast\<close>,
  \<open>Lung\<close> and the stored cancer types are \<open>Lung\<close>, \<open>Breast\<close>; for the empty patient the
  prediction is \<open>Lung\<close>, the returned distribution files \<open>1/4\<close> under \<open>Lung\<close> and \<open>3/4\<close> under
  \<open>Breast\<close>, and the confidence is \<open>1/4\<close>: not the maximum of the returned distribution.
\<close>

theorem predict_cancer_confidence_is_not_the_maximum:
  "\<exists>P r. demo_predictor = Inr P
     \<and> self_cancer_types P = Some [''Lung'', ''Breast'']
     \<and> map_option forest_classes (self_model P) = Some [''Breast'', ''Lung'']
     \<and> predict_cancer P empty_dict = Inr r
     \<and> cp_predicted_cancer_type r = ''Lung''
     \<and> cp_all_probabilities r = [(''Lung'', 1 / 4), (''Breast'', 3 / 4)]
     \<and> cp_confidence r = 1 / 4
     \<and> cp_confidence r < Max (snd ` set (cp_all_probabilities r))"
proof (cases demo_predictor)
  case (Inl e)
  have False using demo_predict_cancer by (simp add: Inl)
  then show ?thesis ..
next
  case (Inr P)
  have p: "self_cancer_types P = Some [''Lung'', ''Breast'']"
    "map_option forest_classes (self_model P) = Some [''Breast'', ''Lung'']"
    "predict_cancer P empty_dict =
       Inr \<lparr>cp_predicted_cancer_type = ''Lung'', cp_confidence = 1 / 4,
            cp_all_probabilities = [(''Lung'', 1 / 4), (''Breast'', 3 / 4)],
            cp_top_predictions = [(''Breast'', 3 / 4), (''Lung'', 1 / 4)]\<rparr>"
    using demo_predict_cancer by (simp_all add: Inr)
  show ?thesis
    apply (rule exI [of _ P])
    apply (rule exI [of _ "\<lparr>cp_predicted_cancer_type = ''Lung'', cp_confidence = 1 / 4,
            cp_all_probabilities = [(''Lung'', 1 / 4), (''Breast'', 3 / 4)],
            cp_top_predictions = [(''Breast'', 3 / 4), (''Lung'', 1 / 4)]\<rparr>"])
    apply (simp add: Inr p)
    done
qed
section \<open>Missing columns of the patient row\<close>












section \<open>Training and inference use the same fitted objects\<close>








end
